theory Spec2Isabelle
  imports Complex_Main "HOL-Library.AList"
begin

section \<open>Python strings\<close>

text \<open>
  A Python \<^verbatim>\<open>str\<close> is a sequence of code points. It is modelled as a \<open>string\<close>, one
  \<open>char\<close> per code point, which covers the texts over U+0000 to U+00FF; \<open>length\<close> is
  Python's \<^verbatim>\<open>len\<close>. The character classes below are those of CPython on that range:
  \<^verbatim>\<open>str.isspace\<close> (also \<^verbatim>\<open>\s\<close> of \<^verbatim>\<open>re\<close>), \<^verbatim>\<open>\w\<close>, \<^verbatim>\<open>\d\<close>, \<^verbatim>\<open>str.lower\<close>, and the letters
  that \<^verbatim>\<open>re.IGNORECASE\<close> identifies.
\<close>

definition NL :: char where
  "NL = CHR 0x0A"

definition codepoint :: "char \<Rightarrow> nat" where
  "codepoint c = of_char c"

definition isspace :: "char \<Rightarrow> bool" where
  "isspace c = (let n = codepoint c in
     (9 \<le> n \<and> n \<le> 13) \<or> (28 \<le> n \<and> n \<le> 32) \<or> n = 133 \<or> n = 160)"

definition isdecimal :: "char \<Rightarrow> bool" where
  "isdecimal c = (let n = codepoint c in 48 \<le> n \<and> n \<le> 57)"

definition isword :: "char \<Rightarrow> bool" where
  "isword c = (let n = codepoint c in
     (48 \<le> n \<and> n \<le> 57) \<or> (65 \<le> n \<and> n \<le> 90) \<or> n = 95 \<or> (97 \<le> n \<and> n \<le> 122) \<or>
     n = 170 \<or> n = 178 \<or> n = 179 \<or> n = 181 \<or> n = 185 \<or> n = 186 \<or>
     (188 \<le> n \<and> n \<le> 190) \<or> (192 \<le> n \<and> n \<le> 214) \<or> (216 \<le> n \<and> n \<le> 246) \<or> 248 \<le> n)"

definition lower_chr :: "char \<Rightarrow> char" where
  "lower_chr c = (let n = codepoint c in
     if (65 \<le> n \<and> n \<le> 90) \<or> (192 \<le> n \<and> n \<le> 222 \<and> n \<noteq> 215) then char_of (n + 32) else c)"

definition lower :: "string \<Rightarrow> string" where
  "lower s = map lower_chr s"

text \<open>
  Under \<^verbatim>\<open>re.IGNORECASE\<close> a letter of the pattern matches itself and its capital; the
  patterns of this program only have ASCII letters, written in lower case here.
\<close>

definition ascii_lower :: "char \<Rightarrow> char" where
  "ascii_lower c = (let n = codepoint c in if 65 \<le> n \<and> n \<le> 90 then char_of (n + 32) else c)"

definition strip :: "string \<Rightarrow> string" where
  "strip s = rev (dropWhile isspace (rev (dropWhile isspace s)))"

fun startswith :: "string \<Rightarrow> string \<Rightarrow> bool" where
  "startswith s [] = True"
| "startswith [] (p # ps) = False"
| "startswith (c # cs) (p # ps) = (c = p \<and> startswith cs ps)"

fun startswith_ci :: "string \<Rightarrow> string \<Rightarrow> bool" where
  "startswith_ci s [] = True"
| "startswith_ci [] (p # ps) = False"
| "startswith_ci (c # cs) (p # ps) = (ascii_lower c = p \<and> startswith_ci cs ps)"

text \<open>\<^verbatim>\<open>s.find(p)\<close>: the index of the first occurrence of \<open>p\<close> in \<open>s\<close>.\<close>

fun find_sub :: "string \<Rightarrow> string \<Rightarrow> nat option" where
  "find_sub [] p = (if p = [] then Some 0 else None)"
| "find_sub (c # cs) p =
     (if startswith (c # cs) p then Some 0 else map_option Suc (find_sub cs p))"

text \<open>\<^verbatim>\<open>p in s\<close> on two strings.\<close>

definition contains :: "string \<Rightarrow> string \<Rightarrow> bool" where
  "contains s p = (find_sub s p \<noteq> None)"

text \<open>\<^verbatim>\<open>s.split(d)\<close> for a one-character separator: never empty.\<close>

fun split_on :: "char \<Rightarrow> string \<Rightarrow> string list" where
  "split_on d [] = [[]]"
| "split_on d (c # cs) =
     (if c = d then [] # split_on d cs
      else (case split_on d cs of [] \<Rightarrow> [[c]] | l # ls \<Rightarrow> (c # l) # ls))"

text \<open>\<^verbatim>\<open>d.join(xs)\<close>.\<close>

fun join :: "string \<Rightarrow> string list \<Rightarrow> string" where
  "join d [] = []"
| "join d [x] = x"
| "join d (x # y # ys) = x @ d @ join d (y # ys)"

text \<open>\<^verbatim>\<open>str(n)\<close> for a natural number, as the f-strings of the messages print it.\<close>

fun str_of_nat :: "nat \<Rightarrow> string" where
  "str_of_nat n =
     (if n < 10 then [''0123456789'' ! n]
      else str_of_nat (n div 10) @ [''0123456789'' ! (n mod 10)])"

declare str_of_nat.simps [simp del]

definition str_of_int :: "int \<Rightarrow> string" where
  "str_of_int i = (if i < 0 then ''-'' @ str_of_nat (nat (- i)) else str_of_nat (nat i))"

section \<open>Decoded YAML values and the Python operations on them\<close>

text \<open>
  What \<^verbatim>\<open>yaml.safe_load\<close> returns for the core YAML types. A float is a rational, an
  infinity or NaN, so that the comparison of numbers is exact, as in Python. A mapping
  is the list of the items of the \<^verbatim>\<open>dict\<close>.
\<close>

datatype pyfloat = Finite rat | PosInf | NegInf | NaN

datatype yval =
    YNull
  | YBool bool
  | YInt int
  | YFloat pyfloat
  | YStr string
  | YList "yval list"
  | YMap "(yval \<times> yval) list"

datatype exn = TypeError | KeyError | ValueError | YAMLError | OtherError

text \<open>Sequencing of computations that may raise.\<close>

definition andthen :: "exn + 'a \<Rightarrow> ('a \<Rightarrow> exn + 'b) \<Rightarrow> exn + 'b" where
  "andthen m f = (case m of Inl e \<Rightarrow> Inl e | Inr x \<Rightarrow> f x)"

fun foldM :: "('a \<Rightarrow> 'b \<Rightarrow> exn + 'a) \<Rightarrow> 'b list \<Rightarrow> 'a \<Rightarrow> exn + 'a" where
  "foldM f [] a = Inr a"
| "foldM f (x # xs) a = (case f a x of Inl e \<Rightarrow> Inl e | Inr a' \<Rightarrow> foldM f xs a')"

text \<open>Truth value of a Python object: \<^verbatim>\<open>bool(v)\<close>.\<close>

fun truthy :: "yval \<Rightarrow> bool" where
  "truthy YNull = False"
| "truthy (YBool b) = b"
| "truthy (YInt i) = (i \<noteq> 0)"
| "truthy (YFloat f) = (f \<noteq> Finite 0)"
| "truthy (YStr s) = (s \<noteq> [])"
| "truthy (YList xs) = (xs \<noteq> [])"
| "truthy (YMap kvs) = (kvs \<noteq> [])"

text \<open>
  \<^verbatim>\<open>key in v\<close> for a string \<open>key\<close>: a key of a dict, a substring of a string, an element
  of a list; \<^verbatim>\<open>TypeError\<close> on a value that is not a container.
\<close>

fun py_contains :: "yval \<Rightarrow> string \<Rightarrow> exn + bool" where
  "py_contains (YMap kvs) key = Inr (map_of kvs (YStr key) \<noteq> None)"
| "py_contains (YStr s) key = Inr (contains s key)"
| "py_contains (YList xs) key = Inr (YStr key \<in> set xs)"
| "py_contains v key = Inl TypeError"

text \<open>\<^verbatim>\<open>v[key]\<close> for a string \<open>key\<close>.\<close>

fun py_getitem :: "yval \<Rightarrow> string \<Rightarrow> exn + yval" where
  "py_getitem (YMap kvs) key =
     (case map_of kvs (YStr key) of None \<Rightarrow> Inl KeyError | Some v \<Rightarrow> Inr v)"
| "py_getitem v key = Inl TypeError"

text \<open>Numbers: \<^verbatim>\<open>int\<close>, \<^verbatim>\<open>bool\<close> (a subclass of \<^verbatim>\<open>int\<close>) and \<^verbatim>\<open>float\<close>.\<close>

fun num_of :: "yval \<Rightarrow> pyfloat option" where
  "num_of (YInt i) = Some (Finite (of_int i))"
| "num_of (YBool b) = Some (Finite (if b then 1 else 0))"
| "num_of (YFloat f) = Some f"
| "num_of v = None"

fun num_le :: "pyfloat \<Rightarrow> pyfloat \<Rightarrow> bool" where
  "num_le NaN y = False"
| "num_le x NaN = False"
| "num_le NegInf y = True"
| "num_le x PosInf = True"
| "num_le (Finite a) (Finite b) = (a \<le> b)"
| "num_le x y = False"

text \<open>\<^verbatim>\<open>a <= b\<close> on two strings: lexicographic on the code points.\<close>

fun str_le :: "string \<Rightarrow> string \<Rightarrow> bool" where
  "str_le [] t = True"
| "str_le (c # cs) [] = False"
| "str_le (c # cs) (d # ds) = (if c = d then str_le cs ds else codepoint c < codepoint d)"

section \<open>The environment\<close>

text \<open>
  What the validator uses and does not define: the file system behind \<^verbatim>\<open>pathlib\<close>
  (a path is modelled as the string \<^verbatim>\<open>str(path)\<close>), \<^verbatim>\<open>yaml.safe_load\<close>, and two corners
  of the Python runtime, \<^verbatim>\<open>str(v)\<close> of a float, list or dict and \<^verbatim>\<open>a <= b\<close> on two lists.
  \<open>fs_read_text\<close> returns \<open>Inl\<close> of the text of the exception when the read raises.
\<close>

record env =
  fs_is_dir :: "string \<Rightarrow> bool"
  fs_exists :: "string \<Rightarrow> bool"
  fs_child :: "string \<Rightarrow> string \<Rightarrow> string"
  fs_read_text :: "string \<Rightarrow> string + string"
  yaml_safe_load :: "string \<Rightarrow> exn + yval"
  py_repr :: "yval \<Rightarrow> string"
  py_list_le :: "yval list \<Rightarrow> yval list \<Rightarrow> exn + bool"

text \<open>\<^verbatim>\<open>a <= b\<close>: \<^verbatim>\<open>TypeError\<close> between values that Python does not order.\<close>

fun py_le :: "env \<Rightarrow> yval \<Rightarrow> yval \<Rightarrow> exn + bool" where
  "py_le E (YStr a) (YStr b) = Inr (str_le a b)"
| "py_le E (YList a) (YList b) = py_list_le E a b"
| "py_le E a b =
     (case (num_of a, num_of b) of
        (Some x, Some y) \<Rightarrow> Inr (num_le x y)
      | _ \<Rightarrow> Inl TypeError)"

text \<open>\<^verbatim>\<open>str(v)\<close>.\<close>

fun py_str :: "env \<Rightarrow> yval \<Rightarrow> string" where
  "py_str E (YStr s) = s"
| "py_str E (YInt i) = str_of_int i"
| "py_str E (YBool b) = (if b then ''True'' else ''False'')"
| "py_str E YNull = ''None''"
| "py_str E v = py_repr E v"

section \<open>The validation result model\<close>

datatype Severity = ERROR | WARNING | INFO

record ValidationIssue =
  severity :: Severity
  message :: string
  location :: string
  suggestion :: "string option"

text \<open>The \<^verbatim>\<open>metadata\<close> dict keeps its keys in insertion order.\<close>

record ValidationResult =
  skill_path :: string
  valid :: bool
  issues :: "ValidationIssue list"
  metadata :: "(string \<times> yval) list"

definition add_issue ::
  "ValidationResult \<Rightarrow> Severity \<Rightarrow> string \<Rightarrow> string \<Rightarrow> string option \<Rightarrow> ValidationResult" where
  "add_issue r sev msg loc sug =
     (let r' = r\<lparr>issues := issues r @
                  [\<lparr>severity = sev, message = msg, location = loc, suggestion = sug\<rparr>]\<rparr>
      in if sev = ERROR then r'\<lparr>valid := False\<rparr> else r')"

text \<open>\<^verbatim>\<open>result.metadata[k] = v\<close>.\<close>

definition set_metadata :: "ValidationResult \<Rightarrow> string \<Rightarrow> yval \<Rightarrow> ValidationResult" where
  "set_metadata r k v = r\<lparr>metadata := AList.update k v (metadata r)\<rparr>"

text \<open>The operations that the program applies to a result after its creation.\<close>

datatype result_op =
    AddIssue Severity string string "string option"
  | SetMetadata string yval

fun apply_op :: "ValidationResult \<Rightarrow> result_op \<Rightarrow> ValidationResult" where
  "apply_op r (AddIssue sev msg loc sug) = add_issue r sev msg loc sug"
| "apply_op r (SetMetadata k v) = set_metadata r k v"

definition REQUIRED_FRONTMATTER :: "string list" where
  "REQUIRED_FRONTMATTER = [''name'', ''description'', ''version'']"

definition RECOMMENDED_FRONTMATTER :: "string list" where
  "RECOMMENDED_FRONTMATTER = [''behaviors'', ''token_estimate'', ''dependencies'']"

definition REQUIRED_SECTIONS :: "string list" where
  "REQUIRED_SECTIONS = [''When to Use'', ''Process'', ''Guidelines'']"

definition RECOMMENDED_SECTIONS :: "string list" where
  "RECOMMENDED_SECTIONS = [''Prerequisites'', ''Success Criteria'', ''Related Skills'']"

definition MIN_KEYWORDS :: nat where
  "MIN_KEYWORDS = 3"

section \<open>Splitting the document\<close>

text \<open>
  \<^verbatim>\<open>parse_frontmatter\<close>. \<^verbatim>\<open>content.index("---", 3)\<close> raises \<^verbatim>\<open>ValueError\<close> when there is no
  second delimiter; the handler catches \<^verbatim>\<open>ValueError\<close> and \<^verbatim>\<open>yaml.YAMLError\<close> and lets any
  other exception of the decoder through.
\<close>

definition index_from3 :: "string \<Rightarrow> exn + nat" where
  "index_from3 content =
     (case find_sub (drop 3 content) ''---'' of
        None \<Rightarrow> Inl ValueError
      | Some i \<Rightarrow> Inr (3 + i))"

definition parse_frontmatter :: "env \<Rightarrow> string \<Rightarrow> exn + (yval \<times> string)" where
  "parse_frontmatter E content =
     (if \<not> startswith content ''---'' then Inr (YMap [], content)
      else
        (case index_from3 content of
           Inl e \<Rightarrow> Inr (YMap [], content)
         | Inr end_index \<Rightarrow>
             (let frontmatter_str = strip (take (end_index - 3) (drop 3 content));
                  body = strip (drop (end_index + 3) content)
              in case yaml_safe_load E frontmatter_str of
                   Inl e \<Rightarrow>
                     (if e = ValueError \<or> e = YAMLError then Inr (YMap [], content) else Inl e)
                 | Inr frontmatter \<Rightarrow>
                     Inr (if truthy frontmatter then frontmatter else YMap [], body))))"

text \<open>
  \<^verbatim>\<open>re.sub(r'^[^\w\s]+\s*', '', title)\<close>: a leading run of characters that are neither
  word characters nor white space is removed, with the white space after it.
\<close>

definition isglyph :: "char \<Rightarrow> bool" where
  "isglyph c = (\<not> isword c \<and> \<not> isspace c)"

definition strip_prefix_glyphs :: "string \<Rightarrow> string" where
  "strip_prefix_glyphs t =
     (if takeWhile isglyph t = [] then t else dropWhile isspace (dropWhile isglyph t))"

text \<open>
  \<^verbatim>\<open>extract_sections\<close>: the state of the loop is \<^verbatim>\<open>sections\<close>, \<^verbatim>\<open>current_section\<close>
  (\<open>None\<close> at first) and \<^verbatim>\<open>current_content\<close>. \<^verbatim>\<open>if current_section:\<close> is false on \<open>None\<close>
  and on the empty title.
\<close>

type_synonym sections = "(string \<times> string) list"

definition flush :: "sections \<Rightarrow> string option \<Rightarrow> string list \<Rightarrow> sections" where
  "flush secs current_section current_content =
     (case current_section of
        None \<Rightarrow> secs
      | Some t \<Rightarrow>
          (if t \<noteq> [] then AList.update t (strip (join [NL] current_content)) secs else secs))"

fun sections_loop ::
  "string list \<Rightarrow> sections \<Rightarrow> string option \<Rightarrow> string list \<Rightarrow> sections" where
  "sections_loop [] secs current_section current_content =
     flush secs current_section current_content"
| "sections_loop (line # rest) secs current_section current_content =
     (if startswith line ''## '' then
        sections_loop rest (flush secs current_section current_content)
          (Some (strip_prefix_glyphs (strip (drop 3 line)))) []
      else if current_section \<noteq> None \<and> current_section \<noteq> Some [] then
        sections_loop rest secs current_section (current_content @ [line])
      else sections_loop rest secs current_section current_content)"

definition extract_sections :: "string \<Rightarrow> sections" where
  "extract_sections body = sections_loop (split_on NL body) [] None []"

section \<open>Keywords\<close>

text \<open>
  \<^verbatim>\<open>re.search(r'Keywords?:\s*(.+)', description, re.IGNORECASE)\<close>. \<open>after_label\<close> is the
  text after the label when the label matches at the start of \<open>s\<close>. \<open>kw_group\<close> is
  group 1 of \<^verbatim>\<open>\s*(.+)\<close> on that text: \<^verbatim>\<open>\s*\<close> takes all the white space, line breaks too,
  and \<^verbatim>\<open>.+\<close> the rest of the line reached; when only white space follows the label,
  \<^verbatim>\<open>\s*\<close> gives back until \<^verbatim>\<open>.\<close> finds a character that is not a line break.
\<close>

definition after_label :: "string \<Rightarrow> string option" where
  "after_label s =
     (if startswith_ci s ''keywords:'' then Some (drop 9 s)
      else if startswith_ci s ''keyword:'' then Some (drop 8 s)
      else None)"

definition kw_group :: "string \<Rightarrow> string option" where
  "kw_group rest =
     (let r = dropWhile isspace rest in
      if r \<noteq> [] then Some (takeWhile (\<lambda>c. c \<noteq> NL) r)
      else (case dropWhile (\<lambda>c. c = NL) (rev rest) of
              [] \<Rightarrow> None
            | c # _ \<Rightarrow> Some [c]))"

fun kw_search :: "string \<Rightarrow> string option" where
  "kw_search [] = None"
| "kw_search (c # cs) =
     (case after_label (c # cs) of
        None \<Rightarrow> kw_search cs
      | Some rest \<Rightarrow>
          (case kw_group rest of
             None \<Rightarrow> kw_search cs
           | Some g \<Rightarrow> Some g))"

definition extract_keywords :: "string \<Rightarrow> string list" where
  "extract_keywords description =
     (case kw_search description of
        None \<Rightarrow> []
      | Some keywords_str \<Rightarrow> map strip (split_on CHR '','' keywords_str))"

section \<open>Frontmatter rules\<close>

text \<open>
  \<^verbatim>\<open>re.match(r'^[a-z0-9-]+$', name)\<close> and \<^verbatim>\<open>re.match(r'^\d+\.\d+\.\d+$', version)\<close>:
  \<^verbatim>\<open>$\<close> also matches before a line break that ends the string.
\<close>

definition chomp :: "string \<Rightarrow> string" where
  "chomp s = (if s \<noteq> [] \<and> last s = NL then butlast s else s)"

definition iskebab :: "char \<Rightarrow> bool" where
  "iskebab c = (let n = codepoint c in
     (97 \<le> n \<and> n \<le> 122) \<or> (48 \<le> n \<and> n \<le> 57) \<or> n = 45)"

definition kebab_match :: "string \<Rightarrow> bool" where
  "kebab_match name = (chomp name \<noteq> [] \<and> list_all iskebab (chomp name))"

definition semver_match :: "string \<Rightarrow> bool" where
  "semver_match version =
     (case split_on CHR ''.'' (chomp version) of
        [a, b, c] \<Rightarrow>
          a \<noteq> [] \<and> list_all isdecimal a \<and> b \<noteq> [] \<and> list_all isdecimal b \<and>
          c \<noteq> [] \<and> list_all isdecimal c
      | _ \<Rightarrow> False)"

definition check_required :: "yval \<Rightarrow> ValidationResult \<Rightarrow> string \<Rightarrow> exn + ValidationResult" where
  "check_required frontmatter r field =
     andthen (py_contains frontmatter field) (\<lambda>present.
       andthen (if present then andthen (py_getitem frontmatter field) (\<lambda>v. Inr (truthy v))
                else Inr False) (\<lambda>ok.
         Inr (if \<not> ok then
                add_issue r ERROR (''Missing required frontmatter field: '' @ field)
                  ''frontmatter'' (Some (''Add '' @ [CHR 0x27] @ field @ '':'' @ [CHR 0x27] @
                                          '' to the YAML frontmatter''))
              else r)))"

definition check_recommended :: "yval \<Rightarrow> ValidationResult \<Rightarrow> string \<Rightarrow> exn + ValidationResult" where
  "check_recommended frontmatter r field =
     andthen (py_contains frontmatter field) (\<lambda>present.
       Inr (if \<not> present then
              add_issue r WARNING (''Missing recommended field: '' @ field)
                ''frontmatter'' (Some (''Consider adding '' @ [CHR 0x27] @ field @ '':'' @
                                        [CHR 0x27] @ '' for better skill discoverability''))
            else r))"

text \<open>\<^verbatim>\<open>re.match\<close> and \<^verbatim>\<open>re.search\<close> raise \<^verbatim>\<open>TypeError\<close> on a value that is not a string.\<close>

definition check_name :: "yval \<Rightarrow> ValidationResult \<Rightarrow> exn + ValidationResult" where
  "check_name frontmatter r =
     andthen (py_contains frontmatter ''name'') (\<lambda>present.
       if \<not> present then Inr r
       else andthen (py_getitem frontmatter ''name'') (\<lambda>name.
         case name of
           YStr s \<Rightarrow>
             Inr (if \<not> kebab_match s then
                    add_issue r WARNING
                      (''Skill name '' @ [CHR 0x27] @ s @ [CHR 0x27] @
                       '' should be kebab-case (lowercase with dashes)'')
                      ''frontmatter.name''
                      (Some (''Use format like '' @ [CHR 0x27] @ ''my-skill-name'' @ [CHR 0x27]))
                  else r)
         | _ \<Rightarrow> Inl TypeError))"

definition check_description :: "yval \<Rightarrow> ValidationResult \<Rightarrow> exn + ValidationResult" where
  "check_description frontmatter r =
     andthen (py_contains frontmatter ''description'') (\<lambda>present.
       if \<not> present then Inr r
       else andthen (py_getitem frontmatter ''description'') (\<lambda>desc.
         case desc of
           YStr s \<Rightarrow>
             (let keywords = extract_keywords s;
                  r1 = set_metadata r ''keywords'' (YList (map YStr keywords))
              in Inr (if length keywords < MIN_KEYWORDS then
                        add_issue r1 WARNING
                          (''Description has '' @ str_of_nat (length keywords) @
                           '' keywords, recommend at least '' @ str_of_nat MIN_KEYWORDS)
                          ''frontmatter.description''
                          (Some (''Add '' @ [CHR 0x27] @
                                 ''Keywords: keyword1, keyword2, keyword3'' @ [CHR 0x27] @
                                 '' to description''))
                      else r1))
         | _ \<Rightarrow> Inl TypeError))"

definition check_version :: "env \<Rightarrow> yval \<Rightarrow> ValidationResult \<Rightarrow> exn + ValidationResult" where
  "check_version E frontmatter r =
     andthen (py_contains frontmatter ''version'') (\<lambda>present.
       if \<not> present then Inr r
       else andthen (py_getitem frontmatter ''version'') (\<lambda>v.
         (let version = py_str E v
          in Inr (if \<not> semver_match version then
                    add_issue r WARNING
                      (''Version '' @ [CHR 0x27] @ version @ [CHR 0x27] @
                       '' should follow semver format (x.y.z)'')
                      ''frontmatter.version''
                      (Some (''Use format like '' @ [CHR 0x27] @ ''1.0.0'' @ [CHR 0x27]))
                  else r))))"

text \<open>
  The token-estimate rule on a mapping \<open>te\<close>: a warning for each key that is missing,
  then, when the three keys are there, \<^verbatim>\<open>te["min"] <= te["typical"] <= te["max"]\<close>, which
  compares the second pair only when the first comparison is true.
\<close>

definition check_te_key :: "yval \<Rightarrow> ValidationResult \<Rightarrow> string \<Rightarrow> exn + ValidationResult" where
  "check_te_key te r key =
     andthen (py_contains te key) (\<lambda>present.
       Inr (if \<not> present then
              add_issue r WARNING (''token_estimate missing '' @ [CHR 0x27] @ key @ [CHR 0x27])
                ''frontmatter.token_estimate'' None
            else r))"

fun all_in :: "yval \<Rightarrow> string list \<Rightarrow> exn + bool" where
  "all_in te [] = Inr True"
| "all_in te (k # ks) =
     (case py_contains te k of
        Inl e \<Rightarrow> Inl e
      | Inr present \<Rightarrow> (if present then all_in te ks else Inr False))"

definition chain_le :: "env \<Rightarrow> yval \<Rightarrow> yval \<Rightarrow> yval \<Rightarrow> exn + bool" where
  "chain_le E a b c =
     andthen (py_le E a b) (\<lambda>ab. if ab then py_le E b c else Inr False)"

definition check_te_order :: "env \<Rightarrow> yval \<Rightarrow> ValidationResult \<Rightarrow> exn + ValidationResult" where
  "check_te_order E te r =
     andthen (all_in te [''min'', ''typical'', ''max'']) (\<lambda>all_present.
       if \<not> all_present then Inr r
       else
         andthen (py_getitem te ''min'') (\<lambda>a.
         andthen (py_getitem te ''typical'') (\<lambda>b.
         andthen (py_getitem te ''max'') (\<lambda>c.
         andthen (chain_le E a b c) (\<lambda>ordered.
           Inr (if \<not> ordered then
                  add_issue r ERROR ''token_estimate values should be: min <= typical <= max''
                    ''frontmatter.token_estimate'' None
                else r))))))"

definition token_estimate_rule :: "env \<Rightarrow> yval \<Rightarrow> ValidationResult \<Rightarrow> exn + ValidationResult" where
  "token_estimate_rule E te r =
     (case te of
        YMap kvs \<Rightarrow>
          andthen (foldM (check_te_key te) [''min'', ''typical'', ''max''] r) (check_te_order E te)
      | _ \<Rightarrow> Inr r)"

definition check_token_estimate :: "env \<Rightarrow> yval \<Rightarrow> ValidationResult \<Rightarrow> exn + ValidationResult" where
  "check_token_estimate E frontmatter r =
     andthen (py_contains frontmatter ''token_estimate'') (\<lambda>present.
       if \<not> present then Inr r
       else andthen (py_getitem frontmatter ''token_estimate'') (\<lambda>te. token_estimate_rule E te r))"

definition validate_frontmatter :: "env \<Rightarrow> yval \<Rightarrow> ValidationResult \<Rightarrow> exn + ValidationResult" where
  "validate_frontmatter E frontmatter r =
     andthen (foldM (check_required frontmatter) REQUIRED_FRONTMATTER r) (\<lambda>r1.
     andthen (foldM (check_recommended frontmatter) RECOMMENDED_FRONTMATTER r1) (\<lambda>r2.
     andthen (check_name frontmatter r2) (\<lambda>r3.
     andthen (check_description frontmatter r3) (\<lambda>r4.
     andthen (check_version E frontmatter r4) (\<lambda>r5.
     check_token_estimate E frontmatter r5)))))"

section \<open>Section rules\<close>

text \<open>\<^verbatim>\<open>any(section.lower() in s.lower() for s in section_names)\<close>.\<close>

definition section_found :: "string list \<Rightarrow> string \<Rightarrow> bool" where
  "section_found section_names section =
     list_ex (\<lambda>s. contains (lower s) (lower section)) section_names"

definition check_required_section :: "string list \<Rightarrow> ValidationResult \<Rightarrow> string \<Rightarrow> ValidationResult" where
  "check_required_section section_names r section =
     (if \<not> section_found section_names section then
        add_issue r ERROR
          (''Missing required section: '' @ [CHR 0x27] @ ''## '' @ section @ [CHR 0x27])
          ''body''
          (Some (''Add a '' @ [CHR 0x27] @ ''## '' @ section @ [CHR 0x27] @
                 '' section to the skill''))
      else r)"

definition check_recommended_section :: "string list \<Rightarrow> ValidationResult \<Rightarrow> string \<Rightarrow> ValidationResult" where
  "check_recommended_section section_names r section =
     (if \<not> section_found section_names section then
        add_issue r INFO
          (''Consider adding section: '' @ [CHR 0x27] @ ''## '' @ section @ [CHR 0x27])
          ''body'' None
      else r)"

text \<open>
  The first section whose title contains \<open>key\<close>, as the \<^verbatim>\<open>for ... break\<close> loops over
  \<^verbatim>\<open>sections.items()\<close> find it; \<open>None\<close> when there is none.
\<close>

fun first_section :: "string \<Rightarrow> sections \<Rightarrow> string option" where
  "first_section key [] = None"
| "first_section key ((name, content) # rest) =
     (if contains (lower name) key then Some content else first_section key rest)"

text \<open>
  \<^verbatim>\<open>len(re.findall(r'###\s*Phase', text, re.IGNORECASE))\<close>: \<open>phase_at\<close> is the length of
  the match at the start of \<open>s\<close>; the scan goes on after the end of each match.
\<close>

definition phase_at :: "string \<Rightarrow> nat option" where
  "phase_at s =
     (if startswith s ''###'' \<and> startswith_ci (dropWhile isspace (drop 3 s)) ''phase''
      then Some (3 + length (takeWhile isspace (drop 3 s)) + 5)
      else None)"

fun count_phases :: "nat \<Rightarrow> string \<Rightarrow> nat" where
  "count_phases k [] = 0"
| "count_phases (Suc k) (c # cs) = count_phases k cs"
| "count_phases 0 (c # cs) =
     (case phase_at (c # cs) of
        None \<Rightarrow> count_phases 0 cs
      | Some n \<Rightarrow> Suc (count_phases (n - 1) cs))"

text \<open>
  \<^verbatim>\<open>re.search\<close> of \<^verbatim>\<open>###?\s*DO\<close> and of \<^verbatim>\<open>###?\s*DON'?T\<close>, without regard to case; the
  optional symbol that ends either pattern never decides whether there is a match.
\<close>

definition heading_word_at :: "(string \<Rightarrow> bool) \<Rightarrow> string \<Rightarrow> bool" where
  "heading_word_at word s =
     (startswith s ''##'' \<and>
      (word (dropWhile isspace (drop 2 s)) \<or>
       (startswith (drop 2 s) ''#'' \<and> word (dropWhile isspace (drop 3 s)))))"

fun search_from :: "(string \<Rightarrow> bool) \<Rightarrow> string \<Rightarrow> bool" where
  "search_from P [] = P []"
| "search_from P (c # cs) = (P (c # cs) \<or> search_from P cs)"

definition has_do :: "string \<Rightarrow> bool" where
  "has_do text = search_from (heading_word_at (\<lambda>s. startswith_ci s ''do'')) text"

definition has_dont :: "string \<Rightarrow> bool" where
  "has_dont text =
     search_from (heading_word_at (\<lambda>s. startswith_ci s ''don't'' \<or> startswith_ci s ''dont'')) text"

text \<open>
  The two messages below end a quoted heading with a run of three code points, the
  first of which is above U+00FF; the run is written as its UTF-8 bytes.
\<close>

definition DO_MARK :: string where
  "DO_MARK = [CHR 0xE2, CHR 0x80, CHR 0x9A, CHR 0xC3, CHR 0xBA, CHR 0xC3, CHR 0x96]"

definition DONT_MARK :: string where
  "DONT_MARK = [CHR 0xE2, CHR 0x80, CHR 0x9A, CHR 0xC3, CHR 0xB9, CHR 0xC3, CHR 0xA5]"

definition check_process :: "sections \<Rightarrow> ValidationResult \<Rightarrow> ValidationResult" where
  "check_process secs r =
     (case first_section ''process'' secs of
        None \<Rightarrow> r
      | Some process_section \<Rightarrow>
          (if process_section \<noteq> [] then
             (let phase_count = count_phases 0 process_section
              in if phase_count < 2 then
                   add_issue r INFO
                     (''Process section has '' @ str_of_nat phase_count @
                      '' phases, consider adding more structure'')
                     ''section.Process'' None
                 else r)
           else r))"

definition check_guidelines :: "sections \<Rightarrow> ValidationResult \<Rightarrow> ValidationResult" where
  "check_guidelines secs r =
     (case first_section ''guidelines'' secs of
        None \<Rightarrow> r
      | Some guidelines_section \<Rightarrow>
          (if guidelines_section \<noteq> [] then
             (let r1 = (if \<not> has_do guidelines_section then
                          add_issue r INFO
                            (''Guidelines section missing '' @ [CHR 0x27] @ ''### DO '' @
                             DO_MARK @ [CHR 0x27] @ '' subsection'')
                            ''section.Guidelines'' None
                        else r)
              in if \<not> has_dont guidelines_section then
                   add_issue r1 INFO
                     (''Guidelines section missing '' @ [CHR 0x27] @ ''### DON'' @ [CHR 0x27] @
                      ''T '' @ DONT_MARK @ [CHR 0x27] @ '' subsection'')
                     ''section.Guidelines'' None
                 else r1)
           else r))"

definition validate_sections :: "sections \<Rightarrow> ValidationResult \<Rightarrow> ValidationResult" where
  "validate_sections secs r =
     (let section_names = map fst secs;
          r1 = foldl (check_required_section section_names) r REQUIRED_SECTIONS;
          r2 = foldl (check_recommended_section section_names) r1 RECOMMENDED_SECTIONS;
          r3 = check_process secs r2
      in check_guidelines secs r3)"

section \<open>One document\<close>

text \<open>\<^verbatim>\<open>validate_structure\<close> returns the path of \<^verbatim>\<open>SKILL.md\<close>, or \<open>None\<close>.\<close>

definition validate_structure :: "env \<Rightarrow> string \<Rightarrow> ValidationResult \<Rightarrow> string option \<times> ValidationResult" where
  "validate_structure E path r =
     (let skill_md = fs_child E path ''SKILL.md'' in
      if \<not> fs_exists E skill_md then
        (None, add_issue r ERROR ''Missing SKILL.md file'' path
                 (Some ''Create a SKILL.md file using the template''))
      else
        (let r1 = (if \<not> fs_exists E (fs_child E path ''references'') then
                     add_issue r INFO
                       (''No '' @ [CHR 0x27] @ ''references/'' @ [CHR 0x27] @ '' directory (optional)'')
                       path (Some ''Add references/ for detailed documentation if needed'')
                   else r);
             r2 = (if \<not> fs_exists E (fs_child E path ''scripts'') then
                     add_issue r1 INFO
                       (''No '' @ [CHR 0x27] @ ''scripts/'' @ [CHR 0x27] @ '' directory (optional)'')
                       path (Some ''Add scripts/ for helper utilities if needed'')
                   else r1)
         in (Some skill_md, r2)))"

text \<open>The check of the file size that ends \<^verbatim>\<open>validate_skill\<close>.\<close>

definition check_length :: "string \<Rightarrow> string \<Rightarrow> ValidationResult \<Rightarrow> ValidationResult" where
  "check_length skill_md content r =
     (let content_length = length content in
      if content_length < 500 then
        add_issue r WARNING
          (''SKILL.md seems too short ('' @ str_of_nat content_length @ '' chars)'')
          skill_md (Some ''Add more detail to make the skill useful'')
      else if content_length > 50000 then
        add_issue r WARNING
          (''SKILL.md is very long ('' @ str_of_nat content_length @ '' chars)'')
          skill_md (Some ''Consider moving detail to references/'')
      else r)"

text \<open>What \<^verbatim>\<open>validate_skill\<close> does with the text of \<^verbatim>\<open>SKILL.md\<close> once it is read.\<close>

definition validate_content :: "env \<Rightarrow> string \<Rightarrow> string \<Rightarrow> ValidationResult \<Rightarrow> exn + ValidationResult" where
  "validate_content E skill_md content r =
     andthen (parse_frontmatter E content) (\<lambda>(frontmatter, body).
     andthen (if \<not> truthy frontmatter then
                Inr (add_issue r ERROR ''No YAML frontmatter found'' skill_md
                       (Some ''Add YAML frontmatter between --- markers at the start''))
              else
                andthen (validate_frontmatter E frontmatter r) (\<lambda>r1.
                  Inr (set_metadata r1 ''frontmatter'' frontmatter))) (\<lambda>r2.
       (let secs = extract_sections body;
            r3 = validate_sections secs r2;
            r4 = set_metadata r3 ''sections'' (YList (map YStr (map fst secs)))
        in Inr (check_length skill_md content r4))))"

definition validate_skill :: "env \<Rightarrow> string \<Rightarrow> exn + ValidationResult" where
  "validate_skill E path =
     (let result = \<lparr>skill_path = path, valid = True, issues = [], metadata = []\<rparr> in
      if \<not> fs_is_dir E path then
        Inr (add_issue result ERROR ''Path is not a directory'' path None)
      else
        (case validate_structure E path result of
           (None, r1) \<Rightarrow> Inr r1
         | (Some skill_md, r1) \<Rightarrow>
             (case fs_read_text E skill_md of
                Inl e \<Rightarrow> Inr (add_issue r1 ERROR (''Cannot read SKILL.md: '' @ e) skill_md None)
              | Inr content \<Rightarrow> validate_content E skill_md content r1)))"

section \<open>The batch\<close>




definition valid_count :: "ValidationResult list \<Rightarrow> nat" where
  "valid_count results = length (filter valid results)"

section \<open>Reference descriptions\<close>

text \<open>
  The section map as the specification describes it, for comparison with the loop of
  \<^verbatim>\<open>extract_sections\<close>. A heading line opens a block that holds the lines up to the
  next heading line; the lines before the first heading belong to no block.
\<close>

definition is_heading :: "string \<Rightarrow> bool" where
  "is_heading line = startswith line ''## ''"

definition heading_title :: "string \<Rightarrow> string" where
  "heading_title line = strip_prefix_glyphs (strip (drop 3 line))"

fun blocks :: "string list \<Rightarrow> (string \<times> string list) list" where
  "blocks [] = []"
| "blocks (line # rest) =
     (if is_heading line
      then (heading_title line, takeWhile (\<lambda>l. \<not> is_heading l) rest) # blocks rest
      else blocks rest)"

text \<open>
  The entries that the blocks give, in the order of the document: the title and the
  trimmed text of each block whose title is not empty.
\<close>

definition section_entries :: "string \<Rightarrow> (string \<times> string) list" where
  "section_entries body =
     map (\<lambda>(t, ls). (t, strip (join [NL] ls)))
       (filter (\<lambda>(t, ls). t \<noteq> []) (blocks (split_on NL body)))"

text \<open>The same, with the blocks of an empty title kept.\<close>

definition all_section_entries :: "string \<Rightarrow> (string \<times> string) list" where
  "all_section_entries body =
     map (\<lambda>(t, ls). (t, strip (join [NL] ls))) (blocks (split_on NL body))"

text \<open>The elements of a list in the order of their first occurrences.\<close>

fun first_occurrences :: "'a list \<Rightarrow> 'a list" where
  "first_occurrences [] = []"
| "first_occurrences (x # xs) = x # filter (\<lambda>y. y \<noteq> x) (first_occurrences xs)"



text \<open>The result that \<^verbatim>\<open>validate_skill\<close> starts from.\<close>

definition empty_result :: "string \<Rightarrow> ValidationResult" where
  "empty_result path = \<lparr>skill_path = path, valid = True, issues = [], metadata = []\<rparr>"

text \<open>
  The rule that a Finding comes from, read off its message: every message of the
  program starts with a text of its own.
\<close>

datatype rule =
    NotDirectory
  | MissingPrimaryFile
  | OptionalDirectory
  | ReadFailure
  | NoFrontmatter
  | RequiredField
  | RecommendedField
  | NameFormat
  | KeywordCount
  | VersionFormat
  | TokenEstimate
  | RequiredSection
  | RecommendedSection
  | ProcessStructure
  | GuidelinesStructure
  | LengthRule

definition rule_of_message :: "string \<Rightarrow> rule option" where
  "rule_of_message m =
     (if m = ''Path is not a directory'' then Some NotDirectory
      else if m = ''Missing SKILL.md file'' then Some MissingPrimaryFile
      else if startswith m (''No '' @ [CHR 0x27]) then Some OptionalDirectory
      else if startswith m ''Cannot read SKILL.md: '' then Some ReadFailure
      else if m = ''No YAML frontmatter found'' then Some NoFrontmatter
      else if startswith m ''Missing required frontmatter field: '' then Some RequiredField
      else if startswith m ''Missing recommended field: '' then Some RecommendedField
      else if startswith m (''Skill name '' @ [CHR 0x27]) then Some NameFormat
      else if startswith m ''Description has '' then Some KeywordCount
      else if startswith m (''Version '' @ [CHR 0x27]) then Some VersionFormat
      else if startswith m ''token_estimate '' then Some TokenEstimate
      else if startswith m ''Missing required section: '' then Some RequiredSection
      else if startswith m ''Consider adding section: '' then Some RecommendedSection
      else if startswith m ''Process section has '' then Some ProcessStructure
      else if startswith m ''Guidelines section missing '' then Some GuidelinesStructure
      else if startswith m ''SKILL.md seems too short ('' \<or> startswith m ''SKILL.md is very long (''
        then Some LengthRule
      else None)"

definition rule_of :: "ValidationIssue \<Rightarrow> rule option" where
  "rule_of i = rule_of_message (message i)"

definition frontmatter_rules :: "rule list" where
  "frontmatter_rules =
     [RequiredField, RecommendedField, NameFormat, KeywordCount, VersionFormat, TokenEstimate]"

definition section_rules :: "rule list" where
  "section_rules = [RequiredSection, RecommendedSection, ProcessStructure, GuidelinesStructure]"

definition structure_rules :: "rule list" where
  "structure_rules = [NotDirectory, MissingPrimaryFile, OptionalDirectory, ReadFailure]"

text \<open>The Findings of a result that come from the rules \<open>rs\<close>.\<close>

definition findings_of :: "rule list \<Rightarrow> ValidationIssue list \<Rightarrow> ValidationIssue list" where
  "findings_of rs fs = filter (\<lambda>i. list_ex (\<lambda>ru. rule_of i = Some ru) rs) fs"

text \<open>The Findings of the length rule and of the absence of frontmatter.\<close>

definition short_warning :: "string \<Rightarrow> nat \<Rightarrow> ValidationIssue" where
  "short_warning skill_md n =
     \<lparr>severity = WARNING, message = ''SKILL.md seems too short ('' @ str_of_nat n @ '' chars)'',
      location = skill_md, suggestion = Some ''Add more detail to make the skill useful''\<rparr>"

definition long_warning :: "string \<Rightarrow> nat \<Rightarrow> ValidationIssue" where
  "long_warning skill_md n =
     \<lparr>severity = WARNING, message = ''SKILL.md is very long ('' @ str_of_nat n @ '' chars)'',
      location = skill_md, suggestion = Some ''Consider moving detail to references/''\<rparr>"

definition no_frontmatter_error :: "string \<Rightarrow> ValidationIssue" where
  "no_frontmatter_error skill_md =
     \<lparr>severity = ERROR, message = ''No YAML frontmatter found'', location = skill_md,
      suggestion = Some ''Add YAML frontmatter between --- markers at the start''\<rparr>"


text \<open>
  What \<^verbatim>\<open>validate_skill\<close> does after the split when there is no frontmatter: the error
  for its absence, then the section rules on \<open>body\<close> and the length rule on \<open>content\<close>.
\<close>

definition without_frontmatter :: "string \<Rightarrow> string \<Rightarrow> string \<Rightarrow> ValidationResult \<Rightarrow> ValidationResult" where
  "without_frontmatter skill_md content body r =
     check_length skill_md content
       (set_metadata
          (validate_sections (extract_sections body)
             (add_issue r ERROR ''No YAML frontmatter found'' skill_md
                (Some ''Add YAML frontmatter between --- markers at the start'')))
          ''sections'' (YList (map YStr (map fst (extract_sections body)))))"

text \<open>
  \<open>only_rules rs fs\<close>: every Finding of \<open>fs\<close> comes from one of the rules \<open>rs\<close>.
  \<open>extends_by rs r r'\<close>: \<open>r'\<close> is \<open>r\<close> with Findings of the rules \<open>rs\<close> appended, and
  \<open>valid\<close> cleared exactly when one of them is an error.
\<close>

definition only_rules :: "rule list \<Rightarrow> ValidationIssue list \<Rightarrow> bool" where
  "only_rules rs fs = list_all (\<lambda>i. list_ex (\<lambda>ru. rule_of i = Some ru) rs) fs"

definition extends_by :: "rule list \<Rightarrow> ValidationResult \<Rightarrow> ValidationResult \<Rightarrow> bool" where
  "extends_by rs r r' =
     (take (length (issues r)) (issues r') = issues r \<and>
      only_rules rs (drop (length (issues r)) (issues r')) \<and>
      skill_path r' = skill_path r \<and>
      valid r' = (valid r \<and> list_all (\<lambda>i. severity i \<noteq> ERROR) (drop (length (issues r)) (issues r'))))"

text \<open>The Findings of the length rule on a document of \<open>n\<close> characters.\<close>

definition length_findings :: "string \<Rightarrow> nat \<Rightarrow> ValidationIssue list" where
  "length_findings skill_md n =
     (if n < 500 then [short_warning skill_md n]
      else if n > 50000 then [long_warning skill_md n]
      else [])"

text \<open>
  An environment for the examples. \<^verbatim>\<open>d499\<close> and \<^verbatim>\<open>d500\<close> hold a document of
  499 and of 500 characters; \<^verbatim>\<open>one\<close> holds \<^verbatim>\<open>------\<close>, an empty frontmatter block;
  \<^verbatim>\<open>two\<close> has no \<^verbatim>\<open>SKILL.md\<close>; the frontmatter of \<^verbatim>\<open>three\<close> does not decode;
  \<^verbatim>\<open>four\<close> holds a text without frontmatter that begins with a space. The decoder
  returns \<^verbatim>\<open>None\<close> on the empty text and rejects every other text.
\<close>

definition E1 :: env where
  "E1 =
     \<lparr>fs_is_dir = (\<lambda>p. p \<in> set [''d499'', ''d500'', ''one'', ''two'', ''three'', ''four'']),
      fs_exists = (\<lambda>p. p \<in> set [''d499/SKILL.md'', ''d500/SKILL.md'', ''one/SKILL.md'',
                                    ''three/SKILL.md'', ''three/scripts'', ''four/SKILL.md'']),
      fs_child = (\<lambda>p n. p @ ''/'' @ n),
      fs_read_text = (\<lambda>p.
        if p = ''d499/SKILL.md'' then Inr (replicate 499 CHR ''x'')
        else if p = ''d500/SKILL.md'' then Inr (replicate 500 CHR ''x'')
        else if p = ''one/SKILL.md'' then Inr ''------''
        else if p = ''three/SKILL.md'' then
          Inr (''---'' @ [NL] @ ''name: ['' @ [NL] @ ''---'' @ [NL] @ ''## Process'')
        else if p = ''four/SKILL.md'' then Inr '' # Title''
        else Inl ''No such file''),
      yaml_safe_load = (\<lambda>s. if s = [] then Inr YNull else Inl YAMLError),
      py_repr = (\<lambda>v. ''?''),
      py_list_le = (\<lambda>a b. Inl TypeError)\<rparr>"

section \<open>Facts about the result model\<close>

lemma issues_add_issue [simp]:
  "issues (add_issue r sev m l s) =
     issues r @ [\<lparr>severity = sev, message = m, location = l, suggestion = s\<rparr>]"
  by (simp add: add_issue_def Let_def)

lemma valid_add_issue [simp]: "valid (add_issue r sev m l s) = (valid r \<and> sev \<noteq> ERROR)"
  by (simp add: add_issue_def Let_def)

lemma skill_path_add_issue [simp]: "skill_path (add_issue r sev m l s) = skill_path r"
  by (simp add: add_issue_def Let_def)

lemma metadata_add_issue [simp]: "metadata (add_issue r sev m l s) = metadata r"
  by (simp add: add_issue_def Let_def)

lemma issues_set_metadata [simp]: "issues (set_metadata r k v) = issues r"
  by (simp add: set_metadata_def)

lemma valid_set_metadata [simp]: "valid (set_metadata r k v) = valid r"
  by (simp add: set_metadata_def)

lemma skill_path_set_metadata [simp]: "skill_path (set_metadata r k v) = skill_path r"
  by (simp add: set_metadata_def)

lemma invalid_apply_op: "\<not> valid r \<Longrightarrow> \<not> valid (apply_op r op)"
  by (cases op) simp_all

lemma invalid_foldl_apply_op: "\<not> valid r \<Longrightarrow> \<not> valid (foldl apply_op r ops)"
  by (induction ops arbitrary: r) (simp_all add: invalid_apply_op)

text \<open>
  C3. Once a Finding of severity \<open>ERROR\<close> is appended, \<open>valid\<close> is false and stays
  false under every later sequence of operations on the result (appending Findings,
  recording metadata); appending a Finding of another severity leaves \<open>valid\<close> as it was.
\<close>

theorem valid_false_is_permanent:
  "\<not> valid (foldl apply_op (add_issue r ERROR m l s) ops) \<and>
   (sev \<noteq> ERROR \<longrightarrow> valid (add_issue r sev m' l' s') = valid r)"
  by (simp add: invalid_foldl_apply_op)

theorem valid_false_is_permanent_witness:
  "WARNING \<noteq> ERROR \<and>
   \<not> valid (foldl apply_op
     (add_issue \<lparr>skill_path = ''p'', valid = True, issues = [], metadata = []\<rparr> ERROR ''e'' ''here'' None)
     [AddIssue WARNING ''w'' '''' None, SetMetadata ''keywords'' (YList []), AddIssue INFO ''i'' '''' None]) \<and>
   valid (add_issue \<lparr>skill_path = ''p'', valid = True, issues = [], metadata = []\<rparr> WARNING ''w'' '''' None)
     = valid \<lparr>skill_path = ''p'', valid = True, issues = [], metadata = []\<rparr>"
  using valid_false_is_permanent [of "\<lparr>skill_path = ''p'', valid = True, issues = [], metadata = []\<rparr>"
    "''e''" "''here''" None
    "[AddIssue WARNING ''w'' '''' None, SetMetadata ''keywords'' (YList []), AddIssue INFO ''i'' '''' None]"
    WARNING "''w''" "''''" None]
  by simp

section \<open>Section extraction\<close>

lemma flush_ignores_content:
  "cur = None \<or> cur = Some [] \<Longrightarrow> flush secs cur c = secs"
  by (auto simp: flush_def)

lemma flush_Some:
  "flush secs (Some t) c = (if t \<noteq> [] then AList.update t (strip (join [NL] c)) secs else secs)"
  by (simp add: flush_def)

lemma sections_loop_blocks:
  "sections_loop ls secs cur content =
     foldl (\<lambda>m e. AList.update (fst e) (snd e) m)
       (flush secs cur (content @ takeWhile (\<lambda>l. \<not> is_heading l) ls))
       (map (\<lambda>(t, ls). (t, strip (join [NL] ls))) (filter (\<lambda>(t, ls). t \<noteq> []) (blocks ls)))"
proof (induction ls arbitrary: secs cur content)
  case Nil
  then show ?case by simp
next
  case (Cons l ls)
  show ?case
  proof (cases "startswith l ''## ''")
    case True
    then show ?thesis
      by (simp add: Cons.IH is_heading_def heading_title_def flush_Some)
  next
    case False
    show ?thesis
    proof (cases "cur \<noteq> None \<and> cur \<noteq> Some []")
      case True
      with False show ?thesis by (simp add: Cons.IH is_heading_def)
    next
      case False
      then have "flush secs cur (content @ l # takeWhile (\<lambda>l. \<not> is_heading l) ls) = secs"
        and "flush secs cur (content @ takeWhile (\<lambda>l. \<not> is_heading l) ls) = secs"
        by (auto simp: flush_ignores_content)
      with False \<open>\<not> startswith l ''## ''\<close> show ?thesis
        by (auto simp: Cons.IH is_heading_def)
    qed
  qed
qed

lemma extract_sections_entries:
  "extract_sections body =
     foldl (\<lambda>m e. AList.update (fst e) (snd e) m) [] (section_entries body)"
  by (simp add: extract_sections_def section_entries_def sections_loop_blocks flush_def)

lemma keys_foldl_update:
  "map fst (foldl (\<lambda>m e. AList.update (fst e) (snd e) m) m es) =
     map fst m @ filter (\<lambda>k. k \<notin> set (map fst m)) (first_occurrences (map fst es))"
proof (induction es arbitrary: m)
  case Nil
  then show ?case by simp
next
  case (Cons e es)
  show ?case
  proof (cases "fst e \<in> set (map fst m)")
    case True
    then have "filter (\<lambda>k. k \<notin> set (map fst m)) (filter (\<lambda>y. y \<noteq> fst e) (first_occurrences (map fst es)))
             = filter (\<lambda>k. k \<notin> set (map fst m)) (first_occurrences (map fst es))"
      by (auto intro: filter_cong)
    with True show ?thesis
      by (simp add: Cons.IH update_keys)
  next
    case False
    have "filter (\<lambda>k. k \<noteq> fst e \<and> k \<notin> set (map fst m)) (first_occurrences (map fst es))
             = filter (\<lambda>k. k \<notin> set (map fst m)) (filter (\<lambda>y. y \<noteq> fst e) (first_occurrences (map fst es)))"
      by (auto intro: filter_cong)
    with False show ?thesis
      by (simp add: Cons.IH update_keys)
  qed
qed

lemma map_of_foldl_update:
  "map_of (foldl (\<lambda>m e. AList.update (fst e) (snd e) m) m es) = map_of m ++ map_of (rev es)"
proof (induction es arbitrary: m)
  case Nil
  then show ?case by simp
next
  case (Cons e es)
  show ?case
    by (rule ext) (simp add: Cons.IH update_conv' map_add_def split: option.splits)
qed

lemma distinct_first_occurrences: "distinct (first_occurrences xs)"
  by (induction xs) simp_all

lemma distinct_foldl_update:
  "distinct (map fst m) \<Longrightarrow> distinct (map fst (foldl (\<lambda>m e. AList.update (fst e) (snd e) m) m es))"
  by (induction es arbitrary: m) (simp_all add: distinct_update)

text \<open>
  C6, as amended. The section map has one entry for each title that is not empty, in
  the order in which the titles first occur, and the entry of a title holds the trimmed
  text of the last block with that title: a later block overwrites an earlier one, the
  lines before the first heading are in no block, and the block that the end of the
  input closes is stored like the others. A heading whose title is empty once the
  leading glyphs and the white space are stripped stores nothing.
\<close>

theorem extract_sections_last_wins:
  "distinct (map fst (extract_sections body)) \<and>
   map fst (extract_sections body) = first_occurrences (map fst (section_entries body)) \<and>
   map_of (extract_sections body) = map_of (rev (section_entries body))"
proof -
  have "distinct (map fst (extract_sections body))"
    by (simp add: extract_sections_entries distinct_foldl_update)
  moreover have "map fst (extract_sections body) = first_occurrences (map fst (section_entries body))"
    by (simp add: extract_sections_entries keys_foldl_update)
  moreover have "map_of (extract_sections body) = map_of (rev (section_entries body))"
    by (simp add: extract_sections_entries map_of_foldl_update)
  ultimately show ?thesis by blast
qed

text \<open>Two \<^verbatim>\<open>## Guidelines\<close> headings: one entry, with the text of the second block.\<close>

theorem extract_sections_last_wins_witness:
  "map fst (extract_sections (''intro'' @ [NL] @ ''## Guidelines'' @ [NL] @ ''first'' @ [NL] @
       ''## Process'' @ [NL] @ ''steps'' @ [NL] @ ''## Guidelines'' @ [NL] @ ''second''))
     = [''Guidelines'', ''Process''] \<and>
   map_of (extract_sections (''intro'' @ [NL] @ ''## Guidelines'' @ [NL] @ ''first'' @ [NL] @
       ''## Process'' @ [NL] @ ''steps'' @ [NL] @ ''## Guidelines'' @ [NL] @ ''second''))
     ''Guidelines'' = Some ''second''"
proof -
  let ?B = "''intro'' @ [NL] @ ''## Guidelines'' @ [NL] @ ''first'' @ [NL] @
       ''## Process'' @ [NL] @ ''steps'' @ [NL] @ ''## Guidelines'' @ [NL] @ ''second''"
  have e: "section_entries ?B =
      [(''Guidelines'', ''first''), (''Process'', ''steps''), (''Guidelines'', ''second'')]"
    by code_simp
  note th = extract_sections_last_wins [of ?B, unfolded e]
  show ?thesis using th by simp
qed

text \<open>
  C6 as stated fails on a heading with an empty title: the block under \<^verbatim>\<open>## \<close> holds
  the line \<^verbatim>\<open>x\<close>, and the section map has no entry for it.
\<close>

theorem empty_title_not_stored:
  "extract_sections (''## '' @ [NL] @ ''x'') = [] \<and>
   all_section_entries (''## '' @ [NL] @ ''x'') = [([], ''x'')]"
  by code_simp

section \<open>Frontmatter rules and keywords: facts\<close>

lemma andthen_Inr [simp]: "andthen (Inr x) f = f x"
  by (simp add: andthen_def)

lemma andthen_Inl [simp]: "andthen (Inl e) f = Inl e"
  by (simp add: andthen_def)

text \<open>
  C7. The keyword list is meant to come from the rest of the line of the label. When
  the label ends its line, the extraction goes on to the next line: \<^verbatim>\<open>\s*\<close> of the
  pattern takes the line break, and the terms are those of the line below.
\<close>

theorem keywords_taken_from_next_line:
  "extract_keywords (''Keywords:'' @ [NL] @ ''a, b'') = [''a'', ''b'']"
  by code_simp

text \<open>The description of the specification's example.\<close>

lemma keywords_example:
  "extract_keywords ''Does X. Keywords: a, b'' = [''a'', ''b'']"
  by code_simp

lemma str_of_nat_small: "str_of_nat (Suc (Suc 0)) = ''2''" "str_of_nat 3 = ''3''"
  by (simp_all add: str_of_nat.simps)

text \<open>Two keywords are fewer than three: one warning, and the list is recorded.\<close>

lemma keyword_count_example:
  "check_description (YMap [(YStr ''description'', YStr ''Does X. Keywords: a, b'')]) r =
     Inr (add_issue (set_metadata r ''keywords'' (YList [YStr ''a'', YStr ''b''])) WARNING
            ''Description has 2 keywords, recommend at least 3'' ''frontmatter.description''
            (Some (''Add '' @ [CHR 0x27] @ ''Keywords: keyword1, keyword2, keyword3'' @
                   [CHR 0x27] @ '' to description'')))"
  by (simp add: check_description_def keywords_example MIN_KEYWORDS_def str_of_nat_small)

text \<open>
  C2. The frontmatter rules are not total on decoded values. A \<^verbatim>\<open>name\<close> that is the
  number 123 makes the name-format rule raise \<^verbatim>\<open>TypeError\<close>, and so does a
  \<^verbatim>\<open>token_estimate\<close> whose \<^verbatim>\<open>max\<close> is a string next to a numeric \<^verbatim>\<open>typical\<close>: no
  result is returned, whatever the environment and the result so far.
\<close>

theorem validate_frontmatter_raises:
  "validate_frontmatter E
     (YMap [(YStr ''name'', YInt 123), (YStr ''description'', YStr ''Does X''),
            (YStr ''version'', YStr ''1.0.0'')]) r = Inl TypeError \<and>
   validate_frontmatter E
     (YMap [(YStr ''token_estimate'',
             YMap [(YStr ''min'', YInt 1), (YStr ''typical'', YInt 5), (YStr ''max'', YStr ''x'')])]) r
     = Inl TypeError"
  by (simp add: validate_frontmatter_def REQUIRED_FRONTMATTER_def RECOMMENDED_FRONTMATTER_def
      check_required_def check_recommended_def check_name_def check_description_def
      check_version_def check_token_estimate_def token_estimate_rule_def check_te_key_def
      check_te_order_def chain_le_def)








section \<open>The rule of a Finding\<close>

lemma rule_of_message_structure:
  "rule_of_message ''Path is not a directory'' = Some NotDirectory"
  "rule_of_message ''Missing SKILL.md file'' = Some MissingPrimaryFile"
  "rule_of_message (''No '' @ [CHR 0x27] @ x) = Some OptionalDirectory"
  "rule_of_message (''Cannot read SKILL.md: '' @ x) = Some ReadFailure"
  "rule_of_message ''No YAML frontmatter found'' = Some NoFrontmatter"
  by (simp_all add: rule_of_message_def)

lemma rule_of_message_frontmatter:
  "rule_of_message (''Missing required frontmatter field: '' @ x) = Some RequiredField"
  "rule_of_message (''Missing recommended field: '' @ x) = Some RecommendedField"
  "rule_of_message (''Skill name '' @ [CHR 0x27] @ x) = Some NameFormat"
  "rule_of_message (''Description has '' @ x) = Some KeywordCount"
  "rule_of_message (''Version '' @ [CHR 0x27] @ x) = Some VersionFormat"
  "rule_of_message (''token_estimate '' @ x) = Some TokenEstimate"
  by (simp_all add: rule_of_message_def)

lemma rule_of_message_sections:
  "rule_of_message (''Missing required section: '' @ x) = Some RequiredSection"
  "rule_of_message (''Consider adding section: '' @ x) = Some RecommendedSection"
  "rule_of_message (''Process section has '' @ x) = Some ProcessStructure"
  "rule_of_message (''Guidelines section missing '' @ x) = Some GuidelinesStructure"
  by (simp_all add: rule_of_message_def)

lemma rule_of_message_length:
  "rule_of_message (''SKILL.md seems too short ('' @ x) = Some LengthRule"
  "rule_of_message (''SKILL.md is very long ('' @ x) = Some LengthRule"
  by (simp_all add: rule_of_message_def)

lemma extends_by_iff:
  "extends_by rs r r' \<longleftrightarrow>
     (\<exists>new. issues r' = issues r @ new \<and> only_rules rs new \<and> skill_path r' = skill_path r \<and>
        valid r' = (valid r \<and> list_all (\<lambda>i. severity i \<noteq> ERROR) new))"
proof
  assume e: "extends_by rs r r'"
  then have "issues r' = issues r @ drop (length (issues r)) (issues r')"
    by (metis append_take_drop_id extends_by_def)
  with e show "\<exists>new. issues r' = issues r @ new \<and> only_rules rs new \<and> skill_path r' = skill_path r \<and>
        valid r' = (valid r \<and> list_all (\<lambda>i. severity i \<noteq> ERROR) new)"
    unfolding extends_by_def by blast
next
  assume "\<exists>new. issues r' = issues r @ new \<and> only_rules rs new \<and> skill_path r' = skill_path r \<and>
        valid r' = (valid r \<and> list_all (\<lambda>i. severity i \<noteq> ERROR) new)"
  then show "extends_by rs r r'"
    by (auto simp: extends_by_def)
qed

lemma extends_by_refl: "extends_by rs r r"
  by (simp add: extends_by_def only_rules_def)

lemma extends_by_trans:
  assumes "extends_by rs r r1" "extends_by rs r1 r2"
  shows "extends_by rs r r2"
proof -
  obtain n1 where n1: "issues r1 = issues r @ n1" "only_rules rs n1" "skill_path r1 = skill_path r"
    "valid r1 = (valid r \<and> list_all (\<lambda>i. severity i \<noteq> ERROR) n1)"
    using assms(1) extends_by_iff by blast
  obtain n2 where n2: "issues r2 = issues r1 @ n2" "only_rules rs n2" "skill_path r2 = skill_path r1"
    "valid r2 = (valid r1 \<and> list_all (\<lambda>i. severity i \<noteq> ERROR) n2)"
    using assms(2) extends_by_iff by blast
  have "issues r2 = issues r @ (n1 @ n2)" "only_rules rs (n1 @ n2)" "skill_path r2 = skill_path r"
    "valid r2 = (valid r \<and> list_all (\<lambda>i. severity i \<noteq> ERROR) (n1 @ n2))"
    using n1 n2 by (auto simp: only_rules_def)
  then show ?thesis
    using extends_by_iff by blast
qed

lemma extends_by_mono:
  assumes "extends_by rs r r'" "set rs \<subseteq> set rs'"
  shows "extends_by rs' r r'"
proof -
  have "only_rules rs fs \<Longrightarrow> only_rules rs' fs" for fs
    using assms(2) by (auto simp: only_rules_def list_all_iff list_ex_iff)
  with assms(1) show ?thesis
    by (auto simp: extends_by_def)
qed

lemma extends_by_add_issue:
  assumes "list_ex (\<lambda>ru. rule_of_message m = Some ru) rs"
  shows "extends_by rs r (add_issue r sev m l s)"
  using assms by (auto simp: extends_by_def only_rules_def rule_of_def list_ex_iff)

lemma extends_by_set_metadata: "extends_by rs r (set_metadata r k v)"
  by (simp add: extends_by_def only_rules_def)

lemma extends_by_foldl:
  assumes "\<And>r x. extends_by rs r (f r x)"
  shows "extends_by rs r (foldl f r xs)"
proof (induction xs arbitrary: r)
  case Nil
  then show ?case by (simp add: extends_by_refl)
next
  case (Cons x xs)
  show ?case
    using extends_by_trans [OF assms [of r x] Cons.IH [of "f r x"]] by simp
qed

lemma extends_by_check_required_section:
  "extends_by section_rules r (check_required_section names r s)"
  by (simp add: check_required_section_def extends_by_refl extends_by_add_issue
      rule_of_message_def section_rules_def)

lemma extends_by_check_recommended_section:
  "extends_by section_rules r (check_recommended_section names r s)"
  by (simp add: check_recommended_section_def extends_by_refl extends_by_add_issue
      rule_of_message_def section_rules_def)

lemma extends_by_check_process: "extends_by section_rules r (check_process secs r)"
  by (simp add: check_process_def extends_by_refl Let_def extends_by_add_issue
      rule_of_message_def section_rules_def split: option.splits)

lemma extends_by_check_guidelines: "extends_by section_rules r (check_guidelines secs r)"
proof -
  have a: "extends_by section_rules r0
     (add_issue r0 INFO (''Guidelines section missing '' @ [CHR 0x27] @ ''### DO '' @
                             DO_MARK @ [CHR 0x27] @ '' subsection'') l s)" for r0 l s
    by (simp add: extends_by_add_issue rule_of_message_def section_rules_def)
  have b: "extends_by section_rules r0
     (add_issue r0 INFO (''Guidelines section missing '' @ [CHR 0x27] @ ''### DON'' @ [CHR 0x27] @
                      ''T '' @ DONT_MARK @ [CHR 0x27] @ '' subsection'') l s)" for r0 l s
    by (simp add: extends_by_add_issue rule_of_message_def section_rules_def)
  show ?thesis
  proof (cases "first_section ''guidelines'' secs")
    case None
    then show ?thesis by (simp add: check_guidelines_def extends_by_refl)
  next
    case (Some g)
    show ?thesis
      using Some a b extends_by_trans [OF a b]
      by (simp add: check_guidelines_def Let_def extends_by_refl)
  qed
qed

lemma extends_by_validate_sections: "extends_by section_rules r (validate_sections secs r)"
proof -
  let ?names = "map fst secs"
  let ?r1 = "foldl (check_required_section ?names) r REQUIRED_SECTIONS"
  let ?r2 = "foldl (check_recommended_section ?names) ?r1 RECOMMENDED_SECTIONS"
  let ?r3 = "check_process secs ?r2"
  have 1: "extends_by section_rules r ?r1"
    by (rule extends_by_foldl) (rule extends_by_check_required_section)
  have 2: "extends_by section_rules ?r1 ?r2"
    by (rule extends_by_foldl) (rule extends_by_check_recommended_section)
  have 3: "extends_by section_rules ?r2 ?r3"
    by (rule extends_by_check_process)
  have 4: "extends_by section_rules ?r3 (check_guidelines secs ?r3)"
    by (rule extends_by_check_guidelines)
  show ?thesis
    unfolding validate_sections_def Let_def
    using extends_by_trans [OF extends_by_trans [OF extends_by_trans [OF 1 2] 3] 4] .
qed

section \<open>The frontmatter rules append Findings of their own\<close>

lemma andthen_eq_Inr: "andthen m f = Inr y \<longleftrightarrow> (\<exists>x. m = Inr x \<and> f x = Inr y)"
  by (cases m) simp_all

lemma extends_by_foldM:
  assumes "\<And>r x r'. f r x = Inr r' \<Longrightarrow> extends_by rs r r'"
  shows "foldM f xs r = Inr r' \<Longrightarrow> extends_by rs r r'"
proof (induction xs arbitrary: r)
  case Nil
  then show ?case by (simp add: extends_by_refl)
next
  case (Cons x xs)
  then obtain r1 where r1: "f r x = Inr r1" "foldM f xs r1 = Inr r'"
    by (auto split: sum.splits)
  show ?case
    using extends_by_trans [OF assms [OF r1(1)] Cons.IH [OF r1(2)]] .
qed

lemma extends_by_check_required:
  "check_required fm r field = Inr r' \<Longrightarrow> extends_by frontmatter_rules r r'"
  by (auto simp: check_required_def andthen_eq_Inr extends_by_refl extends_by_add_issue
      rule_of_message_def frontmatter_rules_def split: if_splits)

lemma extends_by_check_recommended:
  "check_recommended fm r field = Inr r' \<Longrightarrow> extends_by frontmatter_rules r r'"
  by (auto simp: check_recommended_def andthen_eq_Inr extends_by_refl extends_by_add_issue
      rule_of_message_def frontmatter_rules_def split: if_splits)

lemma extends_by_if_add:
  assumes "list_ex (\<lambda>ru. rule_of_message m = Some ru) rs"
    and "r' = (if c then add_issue r sev m l s else r)"
  shows "extends_by rs r r'"
  using assms by (simp add: extends_by_refl extends_by_add_issue)

lemma case_YStr_Inr:
  "(case v of YStr s \<Rightarrow> Inr (F s) | _ \<Rightarrow> Inl e) = Inr r' \<Longrightarrow> \<exists>s. v = YStr s \<and> r' = F s"
  by (cases v) auto

lemma guarded_field:
  assumes "andthen (py_contains fm k) (\<lambda>present.
             if \<not> present then Inr r else andthen (py_getitem fm k) F) = Inr r'"
    and "r' = r \<Longrightarrow> Q"
    and "\<And>v. F v = Inr r' \<Longrightarrow> Q"
  shows Q
proof -
  from assms(1) obtain present where
    p: "(if \<not> present then Inr r else andthen (py_getitem fm k) F) = Inr r'"
    unfolding andthen_eq_Inr by blast
  show Q
  proof (cases present)
    case False
    with p show Q by (simp add: assms(2))
  next
    case True
    with p have "andthen (py_getitem fm k) F = Inr r'" by simp
    then show Q
      unfolding andthen_eq_Inr using assms(3) by blast
  qed
qed

lemma extends_by_check_name:
  assumes "check_name fm r = Inr r'"
  shows "extends_by frontmatter_rules r r'"
proof (rule guarded_field [OF assms [unfolded check_name_def]])
  show "r' = r \<Longrightarrow> extends_by frontmatter_rules r r'"
    by (simp add: extends_by_refl)
next
  fix v
  assume "(case v of
           YStr s \<Rightarrow>
             Inr (if \<not> kebab_match s then
                    add_issue r WARNING
                      (''Skill name '' @ [CHR 0x27] @ s @ [CHR 0x27] @
                       '' should be kebab-case (lowercase with dashes)'')
                      ''frontmatter.name''
                      (Some (''Use format like '' @ [CHR 0x27] @ ''my-skill-name'' @ [CHR 0x27]))
                  else r)
         | _ \<Rightarrow> Inl TypeError) = Inr r'"
  then obtain s where "r' = (if \<not> kebab_match s then
                    add_issue r WARNING
                      (''Skill name '' @ [CHR 0x27] @ s @ [CHR 0x27] @
                       '' should be kebab-case (lowercase with dashes)'')
                      ''frontmatter.name''
                      (Some (''Use format like '' @ [CHR 0x27] @ ''my-skill-name'' @ [CHR 0x27]))
                  else r)"
    by (cases v) auto
  then show "extends_by frontmatter_rules r r'"
    by (rule extends_by_if_add [rotated]) (simp add: rule_of_message_def frontmatter_rules_def)
qed

lemma extends_by_check_description:
  assumes "check_description fm r = Inr r'"
  shows "extends_by frontmatter_rules r r'"
proof (rule guarded_field [OF assms [unfolded check_description_def Let_def]])
  show "r' = r \<Longrightarrow> extends_by frontmatter_rules r r'"
    by (simp add: extends_by_refl)
next
  fix v
  assume "(case v of
             YStr s \<Rightarrow>
               Inr (if length (extract_keywords s) < MIN_KEYWORDS then
                          add_issue (set_metadata r ''keywords'' (YList (map YStr (extract_keywords s)))) WARNING
                            (''Description has '' @ str_of_nat (length (extract_keywords s)) @
                             '' keywords, recommend at least '' @ str_of_nat MIN_KEYWORDS)
                            ''frontmatter.description''
                            (Some (''Add '' @ [CHR 0x27] @
                                   ''Keywords: keyword1, keyword2, keyword3'' @ [CHR 0x27] @
                                   '' to description''))
                        else set_metadata r ''keywords'' (YList (map YStr (extract_keywords s))))
           | _ \<Rightarrow> Inl TypeError) = Inr r'"
  then obtain s where r': "r' = (if length (extract_keywords s) < MIN_KEYWORDS then
                          add_issue (set_metadata r ''keywords'' (YList (map YStr (extract_keywords s)))) WARNING
                            (''Description has '' @ str_of_nat (length (extract_keywords s)) @
                             '' keywords, recommend at least '' @ str_of_nat MIN_KEYWORDS)
                            ''frontmatter.description''
                            (Some (''Add '' @ [CHR 0x27] @
                                   ''Keywords: keyword1, keyword2, keyword3'' @ [CHR 0x27] @
                                   '' to description''))
                        else set_metadata r ''keywords'' (YList (map YStr (extract_keywords s))))"
    by (cases v) auto
  let ?r1 = "set_metadata r ''keywords'' (YList (map YStr (extract_keywords s)))"
  have "extends_by frontmatter_rules ?r1 r'"
    using r'
    by (rule extends_by_if_add [rotated]) (simp add: rule_of_message_def frontmatter_rules_def)
  then show "extends_by frontmatter_rules r r'"
    using extends_by_trans [OF extends_by_set_metadata] by blast
qed

lemma extends_by_check_version:
  assumes "check_version E fm r = Inr r'"
  shows "extends_by frontmatter_rules r r'"
proof (rule guarded_field [OF assms [unfolded check_version_def Let_def]])
  show "r' = r \<Longrightarrow> extends_by frontmatter_rules r r'"
    by (simp add: extends_by_refl)
next
  fix v
  assume "Inr (if \<not> semver_match (py_str E v) then
                    add_issue r WARNING
                      (''Version '' @ [CHR 0x27] @ py_str E v @ [CHR 0x27] @
                       '' should follow semver format (x.y.z)'')
                      ''frontmatter.version''
                      (Some (''Use format like '' @ [CHR 0x27] @ ''1.0.0'' @ [CHR 0x27]))
                  else r) = (Inr r' :: exn + ValidationResult)"
  then have "r' = (if \<not> semver_match (py_str E v) then
                    add_issue r WARNING
                      (''Version '' @ [CHR 0x27] @ py_str E v @ [CHR 0x27] @
                       '' should follow semver format (x.y.z)'')
                      ''frontmatter.version''
                      (Some (''Use format like '' @ [CHR 0x27] @ ''1.0.0'' @ [CHR 0x27]))
                  else r)"
    by simp
  then show "extends_by frontmatter_rules r r'"
    by (rule extends_by_if_add [rotated]) (simp add: rule_of_message_def frontmatter_rules_def)
qed

lemma extends_by_check_te_key:
  assumes "check_te_key te r key = Inr r'"
  shows "extends_by frontmatter_rules r r'"
proof -
  from assms obtain present where
    "r' = (if \<not> present then
              add_issue r WARNING (''token_estimate missing '' @ [CHR 0x27] @ key @ [CHR 0x27])
                ''frontmatter.token_estimate'' None
            else r)"
    unfolding check_te_key_def andthen_eq_Inr by auto
  then show ?thesis
    by (rule extends_by_if_add [rotated]) (simp add: rule_of_message_def frontmatter_rules_def)
qed

lemma extends_by_check_te_order:
  assumes "check_te_order E te r = Inr r'"
  shows "extends_by frontmatter_rules r r'"
proof -
  from assms obtain all_present where
    p: "(if \<not> all_present then Inr r
       else
         andthen (py_getitem te ''min'') (\<lambda>a.
         andthen (py_getitem te ''typical'') (\<lambda>b.
         andthen (py_getitem te ''max'') (\<lambda>c.
         andthen (chain_le E a b c) (\<lambda>ordered.
           Inr (if \<not> ordered then
                  add_issue r ERROR ''token_estimate values should be: min <= typical <= max''
                    ''frontmatter.token_estimate'' None
                else r)))))) = Inr r'"
    unfolding check_te_order_def andthen_eq_Inr by blast
  show ?thesis
  proof (cases all_present)
    case False
    with p show ?thesis by (simp add: extends_by_refl)
  next
    case True
    with p have "andthen (py_getitem te ''min'') (\<lambda>a.
         andthen (py_getitem te ''typical'') (\<lambda>b.
         andthen (py_getitem te ''max'') (\<lambda>c.
         andthen (chain_le E a b c) (\<lambda>ordered.
           Inr (if \<not> ordered then
                  add_issue r ERROR ''token_estimate values should be: min <= typical <= max''
                    ''frontmatter.token_estimate'' None
                else r))))) = Inr r'"
      by simp
    then obtain ordered where "r' = (if \<not> ordered then
                  add_issue r ERROR ''token_estimate values should be: min <= typical <= max''
                    ''frontmatter.token_estimate'' None
                else r)"
      by (auto simp: andthen_eq_Inr)
    then show ?thesis
      by (rule extends_by_if_add [rotated]) (simp add: rule_of_message_def frontmatter_rules_def)
  qed
qed

lemma extends_by_token_estimate_rule:
  assumes "token_estimate_rule E te r = Inr r'"
  shows "extends_by frontmatter_rules r r'"
proof (cases "\<exists>kvs. te = YMap kvs")
  case False
  with assms have "r' = r"
    by (cases te) (simp_all add: token_estimate_rule_def)
  then show ?thesis by (simp add: extends_by_refl)
next
  case True
  then obtain kvs where te: "te = YMap kvs" by blast
  have "andthen (foldM (check_te_key te) [''min'', ''typical'', ''max''] r) (check_te_order E te)
          = Inr r'"
    using assms te by (simp add: token_estimate_rule_def del: foldM.simps)
  then obtain mid where
    m: "foldM (check_te_key te) [''min'', ''typical'', ''max''] r = Inr mid"
       "check_te_order E te mid = Inr r'"
    unfolding andthen_eq_Inr by blast
  show ?thesis
    using extends_by_trans [OF extends_by_foldM [of "check_te_key te", OF extends_by_check_te_key m(1)]
        extends_by_check_te_order [OF m(2)]] .
qed

lemma extends_by_check_token_estimate:
  assumes "check_token_estimate E fm r = Inr r'"
  shows "extends_by frontmatter_rules r r'"
  by (rule guarded_field [OF assms [unfolded check_token_estimate_def]])
     (simp_all add: extends_by_refl extends_by_token_estimate_rule)

lemma extends_by_validate_frontmatter:
  assumes "validate_frontmatter E fm r = Inr r'"
  shows "extends_by frontmatter_rules r r'"
proof -
  from assms obtain r1 r2 r3 r4 r5 where
    1: "foldM (check_required fm) REQUIRED_FRONTMATTER r = Inr r1" and
    2: "foldM (check_recommended fm) RECOMMENDED_FRONTMATTER r1 = Inr r2" and
    3: "check_name fm r2 = Inr r3" and
    4: "check_description fm r3 = Inr r4" and
    5: "check_version E fm r4 = Inr r5" and
    6: "check_token_estimate E fm r5 = Inr r'"
    unfolding validate_frontmatter_def andthen_eq_Inr by blast
  note e1 = extends_by_foldM [of "check_required fm", OF extends_by_check_required 1]
  note e2 = extends_by_foldM [of "check_recommended fm", OF extends_by_check_recommended 2]
  note e3 = extends_by_check_name [OF 3]
  note e4 = extends_by_check_description [OF 4]
  note e5 = extends_by_check_version [OF 5]
  note e6 = extends_by_check_token_estimate [OF 6]
  show ?thesis
    using extends_by_trans [OF extends_by_trans [OF extends_by_trans [OF extends_by_trans
      [OF extends_by_trans [OF e1 e2] e3] e4] e5] e6] .
qed

section \<open>The validation of one document\<close>

lemma findings_of_append: "findings_of rs (a @ b) = findings_of rs a @ findings_of rs b"
  by (simp add: findings_of_def)

lemma findings_of_other_rules:
  assumes "only_rules rs fs" "set rs \<inter> set qs = {}"
  shows "findings_of qs fs = []"
proof -
  have "\<not> list_ex (\<lambda>ru. rule_of i = Some ru) qs" if "i \<in> set fs" for i
  proof -
    from that assms(1) obtain ru where ru: "ru \<in> set rs" "rule_of i = Some ru"
      by (auto simp: only_rules_def list_all_iff list_ex_iff)
    with assms(2) have "ru \<notin> set qs" by blast
    with ru(2) show ?thesis by (auto simp: list_ex_iff)
  qed
  then show ?thesis
    by (simp add: findings_of_def filter_empty_conv)
qed

lemma rule_of_length_findings:
  "rule_of (short_warning md n) = Some LengthRule" "rule_of (long_warning md n) = Some LengthRule"
  by (simp_all add: rule_of_def short_warning_def long_warning_def rule_of_message_def)

lemma findings_of_length_findings:
  "findings_of [LengthRule] (length_findings md n) = length_findings md n"
  by (simp add: findings_of_def length_findings_def rule_of_length_findings)

lemma check_length_issues:
  "issues (check_length md content r) = issues r @ length_findings md (length content)"
  by (simp add: check_length_def length_findings_def short_warning_def long_warning_def Let_def)

lemma check_length_valid: "valid (check_length md content r) = valid r"
  by (simp add: check_length_def Let_def)

lemma extends_by_issues:
  assumes "extends_by rs r r'"
  obtains new where "issues r' = issues r @ new" "only_rules rs new"
    "valid r' = (valid r \<and> list_all (\<lambda>i. severity i \<noteq> ERROR) new)"
  using assms extends_by_iff by blast

lemma parse_frontmatter_no_delimiter:
  "\<not> startswith content ''---'' \<Longrightarrow> parse_frontmatter E content = Inr (YMap [], content)"
  by (simp add: parse_frontmatter_def)

lemma parse_frontmatter_unclosed:
  "index_from3 content = Inl e \<Longrightarrow> parse_frontmatter E content = Inr (YMap [], content)"
  by (simp add: parse_frontmatter_def)


lemma parse_frontmatter_falsy:
  assumes "startswith content ''---''" "index_from3 content = Inr k"
    and "yaml_safe_load E (strip (take (k - 3) (drop 3 content))) = Inr v" "\<not> truthy v"
  shows "parse_frontmatter E content = Inr (YMap [], strip (drop (k + 3) content))"
  using assms by (simp add: parse_frontmatter_def Let_def)

lemma validate_content_without_frontmatter:
  assumes "parse_frontmatter E content = Inr (fm, body)" "\<not> truthy fm"
  shows "validate_content E md content r = Inr (without_frontmatter md content body r)"
  using assms by (simp add: validate_content_def without_frontmatter_def Let_def)

lemma without_frontmatter_issues:
  "\<exists>new. issues (without_frontmatter md content body r) =
       issues r @ no_frontmatter_error md # new @ length_findings md (length content) \<and>
     only_rules section_rules new"
proof -
  let ?r1 = "add_issue r ERROR ''No YAML frontmatter found'' md
                (Some ''Add YAML frontmatter between --- markers at the start'')"
  obtain new where new: "issues (validate_sections (extract_sections body) ?r1) = issues ?r1 @ new"
    "only_rules section_rules new"
    using extends_by_validate_sections extends_by_issues by blast
  then show ?thesis
    by (auto simp: without_frontmatter_def check_length_issues no_frontmatter_error_def)
qed

lemma without_frontmatter_invalid: "\<not> valid (without_frontmatter md content body r)"
proof -
  let ?r1 = "add_issue r ERROR ''No YAML frontmatter found'' md
                (Some ''Add YAML frontmatter between --- markers at the start'')"
  have "\<not> valid ?r1" by simp
  moreover have "extends_by section_rules ?r1 (validate_sections (extract_sections body) ?r1)"
    by (rule extends_by_validate_sections)
  ultimately have "\<not> valid (validate_sections (extract_sections body) ?r1)"
    by (simp add: extends_by_def)
  then show ?thesis
    by (simp add: without_frontmatter_def check_length_valid)
qed

lemma validate_content_unfold:
  assumes "parse_frontmatter E content = Inr (fm, body)"
  shows "validate_content E md content r =
    andthen (if \<not> truthy fm then
                Inr (add_issue r ERROR ''No YAML frontmatter found'' md
                       (Some ''Add YAML frontmatter between --- markers at the start''))
              else
                andthen (validate_frontmatter E fm r) (\<lambda>r1.
                  Inr (set_metadata r1 ''frontmatter'' fm)))
      (\<lambda>r2. Inr (check_length md content
           (set_metadata (validate_sections (extract_sections body) r2) ''sections''
              (YList (map YStr (map fst (extract_sections body)))))))"
  using assms by (simp add: validate_content_def Let_def)

lemma validate_content_shape:
  assumes "validate_content E md content r = Inr r'"
  shows "\<exists>mid. extends_by (NoFrontmatter # frontmatter_rules @ section_rules) r mid \<and>
           r' = check_length md content mid"
proof -
  let ?all = "NoFrontmatter # frontmatter_rules @ section_rules"
  from assms obtain fm body where pf: "parse_frontmatter E content = Inr (fm, body)"
    by (cases "parse_frontmatter E content") (auto simp: validate_content_def)
  from assms obtain r2 where
    r2: "(if \<not> truthy fm then
                Inr (add_issue r ERROR ''No YAML frontmatter found'' md
                       (Some ''Add YAML frontmatter between --- markers at the start''))
              else
                andthen (validate_frontmatter E fm r) (\<lambda>r1.
                  Inr (set_metadata r1 ''frontmatter'' fm))) = Inr r2" and
    r': "r' = check_length md content
           (set_metadata (validate_sections (extract_sections body) r2) ''sections''
              (YList (map YStr (map fst (extract_sections body)))))"
    unfolding validate_content_unfold [OF pf] andthen_eq_Inr by auto
  have a: "extends_by ?all r r2"
  proof (cases "truthy fm")
    case False
    with r2 have "r2 = add_issue r ERROR ''No YAML frontmatter found'' md
                       (Some ''Add YAML frontmatter between --- markers at the start'')"
      by simp
    then show ?thesis
      by (simp add: extends_by_add_issue rule_of_message_def)
  next
    case True
    with r2 obtain r1 where r1: "validate_frontmatter E fm r = Inr r1"
      "r2 = set_metadata r1 ''frontmatter'' fm"
      by (auto simp: andthen_eq_Inr)
    have "extends_by ?all r r1"
      by (rule extends_by_mono [OF extends_by_validate_frontmatter [OF r1(1)]]) auto
    then show ?thesis
      using r1(2) extends_by_trans [OF _ extends_by_set_metadata] by blast
  qed
  have b: "extends_by ?all r2 (validate_sections (extract_sections body) r2)"
    by (rule extends_by_mono [OF extends_by_validate_sections]) auto
  have "extends_by ?all r (set_metadata (validate_sections (extract_sections body) r2) ''sections''
              (YList (map YStr (map fst (extract_sections body)))))"
    using extends_by_trans [OF extends_by_trans [OF a b] extends_by_set_metadata] .
  with r' show ?thesis by blast
qed


lemma validate_structure_present:
  assumes "fs_exists E (fs_child E path ''SKILL.md'')"
  shows "\<exists>r1. validate_structure E path r = (Some (fs_child E path ''SKILL.md''), r1) \<and>
           extends_by structure_rules r r1"
proof -
  have a: "extends_by structure_rules r0 (add_issue r0 INFO (''No '' @ [CHR 0x27] @ x) l s)"
    for r0 x l s
    by (simp add: extends_by_add_issue rule_of_message_def structure_rules_def)
  show ?thesis
    using assms a extends_by_trans [OF a a]
    by (simp add: validate_structure_def Let_def extends_by_refl)
qed



lemma validate_skill_read:
  assumes "fs_is_dir E path" "fs_exists E (fs_child E path ''SKILL.md'')"
    "fs_read_text E (fs_child E path ''SKILL.md'') = Inr content"
  shows "\<exists>r1. extends_by structure_rules (empty_result path) r1 \<and>
           validate_skill E path = validate_content E (fs_child E path ''SKILL.md'') content r1"
proof -
  obtain r1 where "validate_structure E path (empty_result path) = (Some (fs_child E path ''SKILL.md''), r1)"
    "extends_by structure_rules (empty_result path) r1"
    using validate_structure_present [OF assms(2)] by blast
  then show ?thesis
    using assms(1,3) by (auto simp: validate_skill_def empty_result_def)
qed

lemma startswith_replicate: "0 < n \<Longrightarrow> c \<noteq> p \<Longrightarrow> \<not> startswith (replicate n c) (p # ps)"
  by (cases n) simp_all

lemma validate_skill_without_frontmatter:
  assumes "fs_is_dir E path" "fs_exists E (fs_child E path ''SKILL.md'')"
    "fs_read_text E (fs_child E path ''SKILL.md'') = Inr content"
    "parse_frontmatter E content = Inr (fm, body)" "\<not> truthy fm"
  shows "\<not> isl (validate_skill E path)"
proof -
  obtain r1 where "validate_skill E path = validate_content E (fs_child E path ''SKILL.md'') content r1"
    using validate_skill_read [OF assms(1-3)] by blast
  then show ?thesis
    by (simp add: validate_content_without_frontmatter [OF assms(4,5)])
qed

lemma E1_files:
  "fs_is_dir E1 ''d499''" "fs_is_dir E1 ''d500''" "fs_is_dir E1 ''one''" "fs_is_dir E1 ''two''"
  "fs_is_dir E1 ''three''" "fs_is_dir E1 ''four''"
  "fs_child E1 p ''SKILL.md'' = p @ ''/SKILL.md''"
  "fs_exists E1 ''d499/SKILL.md''" "fs_exists E1 ''d500/SKILL.md''"
  "fs_exists E1 ''one/SKILL.md''" "\<not> fs_exists E1 ''two/SKILL.md''"
  "fs_exists E1 ''three/SKILL.md''" "fs_exists E1 ''four/SKILL.md''"
  "fs_read_text E1 ''d499/SKILL.md'' = Inr (replicate 499 CHR ''x'')"
  "fs_read_text E1 ''d500/SKILL.md'' = Inr (replicate 500 CHR ''x'')"
  "fs_read_text E1 ''one/SKILL.md'' = Inr ''------''"
  "fs_read_text E1 ''three/SKILL.md'' =
     Inr (''---'' @ [NL] @ ''name: ['' @ [NL] @ ''---'' @ [NL] @ ''## Process'')"
  "fs_read_text E1 ''four/SKILL.md'' = Inr '' # Title''"
  "yaml_safe_load E1 [] = Inr YNull"
  "s \<noteq> [] \<Longrightarrow> yaml_safe_load E1 s = Inl YAMLError"
  by (simp_all add: E1_def)

lemma E1_returns_d:
  "\<not> isl (validate_skill E1 ''d499'')" "\<not> isl (validate_skill E1 ''d500'')"
proof -
  have "parse_frontmatter E1 (replicate 499 CHR ''x'') = Inr (YMap [], replicate 499 CHR ''x'')"
    "parse_frontmatter E1 (replicate 500 CHR ''x'') = Inr (YMap [], replicate 500 CHR ''x'')"
    by (simp_all add: parse_frontmatter_no_delimiter startswith_replicate)
  then show "\<not> isl (validate_skill E1 ''d499'')" "\<not> isl (validate_skill E1 ''d500'')"
    using validate_skill_without_frontmatter [of E1 "''d499''" "replicate 499 CHR ''x''"]
      validate_skill_without_frontmatter [of E1 "''d500''" "replicate 500 CHR ''x''"]
    by (simp_all add: E1_files)
qed

text \<open>
  C9. For a document that is read and validated, the Findings of the length rule are:
  one warning, with the message for a short document, when the text has fewer than 500
  characters; one warning, with the message for a long document, when it has more than
  50000; none otherwise.
\<close>

theorem length_rule_findings:
  assumes "fs_is_dir E path" "fs_exists E (fs_child E path ''SKILL.md'')"
    and "fs_read_text E (fs_child E path ''SKILL.md'') = Inr content"
    and "validate_skill E path = Inr r"
  shows "findings_of [LengthRule] (issues r) =
           (if length content < 500
              then [short_warning (fs_child E path ''SKILL.md'') (length content)]
            else if length content > 50000
              then [long_warning (fs_child E path ''SKILL.md'') (length content)]
            else [])"
proof -
  let ?md = "fs_child E path ''SKILL.md''"
  obtain r1 where r1: "extends_by structure_rules (empty_result path) r1"
    "validate_skill E path = validate_content E ?md content r1"
    using validate_skill_read [OF assms(1-3)] by blast
  then obtain mid where mid: "extends_by (NoFrontmatter # frontmatter_rules @ section_rules) r1 mid"
    "r = check_length ?md content mid"
    using validate_content_shape assms(4) by metis
  obtain n1 where n1: "issues r1 = n1" "only_rules structure_rules n1"
    using r1(1) by (auto elim: extends_by_issues simp: empty_result_def)
  obtain n2 where n2: "issues mid = issues r1 @ n2"
    "only_rules (NoFrontmatter # frontmatter_rules @ section_rules) n2"
    using mid(1) by (auto elim: extends_by_issues)
  have "findings_of [LengthRule] n1 = []"
    by (rule findings_of_other_rules [OF n1(2)]) (simp add: structure_rules_def)
  moreover have "findings_of [LengthRule] n2 = []"
    by (rule findings_of_other_rules [OF n2(2)]) (simp add: frontmatter_rules_def section_rules_def)
  ultimately have "findings_of [LengthRule] (issues r) = length_findings ?md (length content)"
    using mid(2) n1(1) n2(1)
    by (simp add: check_length_issues findings_of_append findings_of_length_findings)
  then show ?thesis
    by (simp add: length_findings_def)
qed

text \<open>A document of 499 characters gets the warning; one of 500 does not.\<close>

theorem length_rule_findings_witness:
  "findings_of [LengthRule] (issues (projr (validate_skill E1 ''d499'')))
     = [short_warning ''d499/SKILL.md'' 499] \<and>
   findings_of [LengthRule] (issues (projr (validate_skill E1 ''d500''))) = []"
proof -
  have a: "validate_skill E1 ''d499'' = Inr (projr (validate_skill E1 ''d499''))"
    using E1_returns_d(1) by simp
  have b: "validate_skill E1 ''d500'' = Inr (projr (validate_skill E1 ''d500''))"
    using E1_returns_d(2) by simp
  show ?thesis
    using length_rule_findings [of E1 "''d499''" "replicate 499 CHR ''x''", OF _ _ _ a]
      length_rule_findings [of E1 "''d500''" "replicate 500 CHR ''x''", OF _ _ _ b]
    by (simp add: E1_files)
qed

section \<open>Absent, empty and malformed frontmatter\<close>


lemma findings_of_no_frontmatter_error:
  "findings_of [NoFrontmatter] [no_frontmatter_error md] = [no_frontmatter_error md]"
  "findings_of frontmatter_rules [no_frontmatter_error md] = []"
  by (simp_all add: findings_of_def rule_of_def no_frontmatter_error_def rule_of_message_def
      frontmatter_rules_def)

lemma findings_of_length_other:
  "LengthRule \<notin> set rs \<Longrightarrow> findings_of rs (length_findings md n) = []"
  by (auto simp: findings_of_def length_findings_def rule_of_length_findings list_ex_iff)

lemma validate_skill_reads_file:
  assumes "fs_is_dir E path" "fs_exists E (fs_child E path ''SKILL.md'')"
    "fs_read_text E (fs_child E path ''SKILL.md'') = Inr content"
  shows "validate_skill E path =
           validate_content E (fs_child E path ''SKILL.md'') content
             (snd (validate_structure E path (empty_result path)))"
    and "extends_by structure_rules (empty_result path)
           (snd (validate_structure E path (empty_result path)))"
proof -
  obtain r1 where r1:
    "validate_structure E path (empty_result path) = (Some (fs_child E path ''SKILL.md''), r1)"
    "extends_by structure_rules (empty_result path) r1"
    using validate_structure_present [OF assms(2)] by blast
  show "validate_skill E path =
           validate_content E (fs_child E path ''SKILL.md'') content
             (snd (validate_structure E path (empty_result path)))"
    using r1(1) assms(1,3) by (simp add: validate_skill_def empty_result_def)
  show "extends_by structure_rules (empty_result path)
           (snd (validate_structure E path (empty_result path)))"
    using r1 by simp
qed

lemma without_frontmatter_after_structure:
  assumes "extends_by structure_rules (empty_result path) r1"
  shows "findings_of [NoFrontmatter] (issues (without_frontmatter md content body r1))
           = [no_frontmatter_error md]"
    and "findings_of frontmatter_rules (issues (without_frontmatter md content body r1)) = []"
proof -
  obtain st where st: "issues r1 = st" "only_rules structure_rules st"
    using assms by (auto elim: extends_by_issues simp: empty_result_def)
  obtain sec where sec: "issues (without_frontmatter md content body r1) =
       issues r1 @ no_frontmatter_error md # sec @ length_findings md (length content)"
    "only_rules section_rules sec"
    using without_frontmatter_issues by blast
  have a: "findings_of [NoFrontmatter] st = []" "findings_of frontmatter_rules st = []"
    by (rule findings_of_other_rules [OF st(2)], simp add: structure_rules_def frontmatter_rules_def)+
  have b: "findings_of [NoFrontmatter] sec = []" "findings_of frontmatter_rules sec = []"
    by (rule findings_of_other_rules [OF sec(2)], simp add: section_rules_def frontmatter_rules_def)+
  have c: "findings_of [NoFrontmatter] (length_findings md (length content)) = []"
    "findings_of frontmatter_rules (length_findings md (length content)) = []"
    by (simp_all add: findings_of_length_other frontmatter_rules_def)
  have split: "findings_of rs (issues (without_frontmatter md content body r1)) =
      findings_of rs st @ findings_of rs [no_frontmatter_error md] @ findings_of rs sec @
      findings_of rs (length_findings md (length content))" for rs
    using sec(1) st(1)
      findings_of_append [of rs "[no_frontmatter_error md]" "sec @ length_findings md (length content)"]
    by (simp add: findings_of_append)
  show "findings_of [NoFrontmatter] (issues (without_frontmatter md content body r1))
           = [no_frontmatter_error md]"
    by (simp add: split a b c findings_of_no_frontmatter_error)
  show "findings_of frontmatter_rules (issues (without_frontmatter md content body r1)) = []"
    by (simp add: split a b c findings_of_no_frontmatter_error)
qed

lemma validate_skill_without_frontmatter_result:
  assumes "fs_is_dir E path" "fs_exists E (fs_child E path ''SKILL.md'')"
    "fs_read_text E (fs_child E path ''SKILL.md'') = Inr content"
    "parse_frontmatter E content = Inr (YMap [], body)"
  shows "validate_skill E path =
           Inr (without_frontmatter (fs_child E path ''SKILL.md'') content body
                  (snd (validate_structure E path (empty_result path))))"
  using validate_skill_reads_file(1) [OF assms(1-3)]
    validate_content_without_frontmatter [OF assms(4)]
  by simp

text \<open>
  C10. When the frontmatter block of a document is there and decodes to a value that
  is false in Python (\<^verbatim>\<open>None\<close>, an empty mapping), the split returns the empty map
  and the trimmed text after the block, and \<^verbatim>\<open>validate_skill\<close> goes on as without
  frontmatter: the result is invalid, it holds exactly one Finding
  \<^verbatim>\<open>No YAML frontmatter found\<close> and none of the six frontmatter rules. A document
  \<open>p2\<close> whose text has no delimiter at its start is validated by the same steps.
\<close>

theorem empty_frontmatter_like_none:
  assumes "fs_is_dir E path" "fs_exists E (fs_child E path ''SKILL.md'')"
    and "fs_read_text E (fs_child E path ''SKILL.md'') = Inr content"
    and "startswith content ''---''" "index_from3 content = Inr k"
    and "yaml_safe_load E (strip (take (k - 3) (drop 3 content))) = Inr v" "\<not> truthy v"
  shows "parse_frontmatter E content = Inr (YMap [], strip (drop (k + 3) content)) \<and>
    (\<exists>r. validate_skill E path = Inr r \<and> \<not> valid r \<and>
       r = without_frontmatter (fs_child E path ''SKILL.md'') content (strip (drop (k + 3) content))
             (snd (validate_structure E path (empty_result path))) \<and>
       findings_of [NoFrontmatter] (issues r) = [no_frontmatter_error (fs_child E path ''SKILL.md'')] \<and>
       findings_of frontmatter_rules (issues r) = []) \<and>
    (fs_is_dir E p2 \<and> fs_exists E (fs_child E p2 ''SKILL.md'') \<and>
     fs_read_text E (fs_child E p2 ''SKILL.md'') = Inr c2 \<and> \<not> startswith c2 ''---'' \<longrightarrow>
       validate_skill E p2 =
         Inr (without_frontmatter (fs_child E p2 ''SKILL.md'') c2 c2
                (snd (validate_structure E p2 (empty_result p2)))))"
proof -
  have p: "parse_frontmatter E content = Inr (YMap [], strip (drop (k + 3) content))"
    by (rule parse_frontmatter_falsy [OF assms(4-7)])
  note r = validate_skill_without_frontmatter_result [OF assms(1-3) p]
  note f = without_frontmatter_after_structure [OF validate_skill_reads_file(2) [OF assms(1-3)]]
  have other: "fs_is_dir E p2 \<and> fs_exists E (fs_child E p2 ''SKILL.md'') \<and>
     fs_read_text E (fs_child E p2 ''SKILL.md'') = Inr c2 \<and> \<not> startswith c2 ''---'' \<longrightarrow>
       validate_skill E p2 =
         Inr (without_frontmatter (fs_child E p2 ''SKILL.md'') c2 c2
                (snd (validate_structure E p2 (empty_result p2))))"
    using validate_skill_without_frontmatter_result [of E p2 c2 c2] parse_frontmatter_no_delimiter
    by blast
  show ?thesis
    using p r f other without_frontmatter_invalid by simp
qed

text \<open>\<^verbatim>\<open>---\<close> immediately followed by \<^verbatim>\<open>---\<close>, and a text without frontmatter.\<close>

theorem empty_frontmatter_like_none_witness:
  "parse_frontmatter E1 ''------'' = Inr (YMap [], []) \<and>
   (\<exists>r. validate_skill E1 ''one'' = Inr r \<and> \<not> valid r \<and>
      findings_of [NoFrontmatter] (issues r) = [no_frontmatter_error ''one/SKILL.md''] \<and>
      findings_of frontmatter_rules (issues r) = []) \<and>
   validate_skill E1 ''four'' =
     Inr (without_frontmatter ''four/SKILL.md'' '' # Title'' '' # Title''
            (snd (validate_structure E1 ''four'' (empty_result ''four''))))"
proof -
  have i: "index_from3 ''------'' = Inr 3"
    by code_simp
  have l: "yaml_safe_load E1 (strip (take (3 - 3) (drop 3 ''------''))) = Inr YNull"
    by code_simp
  have n: "\<not> startswith '' # Title'' ''---''" by simp
  have s: "startswith ''------'' ''---''" by simp
  have d: "strip (drop (3 + 3) ''------'') = []"
    by code_simp
  show ?thesis
    using empty_frontmatter_like_none [of E1 "''one''" "''------''" 3 YNull "''four''" "'' # Title''",
        unfolded d]
      i l n s
    by (simp add: E1_files)
qed







section \<open>The batch: facts\<close>






end
